theory Spec2Isabelle
  imports Complex_Main "HOL-Library.Sublist" "HOL-Library.AList"
begin

section \<open>Conventions of the embedding\<close>

text \<open>
  The Python sources are embedded function by function. Python \<open>float\<close> values are
  read as real numbers (\<^typ>\<open>real\<close>), so rounding is outside the model, except in
  \<open>compare_evidence\<close>, whose margin product is rounded as a float product; Python \<open>str\<close> values
  are \<^typ>\<open>string\<close>, a list of 8-bit characters. Exceptions are values of the type
  \<open>error\<close>, and a function that can raise returns \<open>error + 'a\<close>. Wall-clock reads
  (\<open>datetime.now()\<close>), \<open>asyncio.sleep\<close> delays and the language-model handle of an agent
  are left out: no modelled function reads them. Every call of the \<open>random\<close> module is an
  explicit input of the function that makes it.
\<close>

datatype error = KeyError string | IndexError | AttributeError string

section \<open>Evidence records (\<open>arena/evidence_system.py\<close>)\<close>

datatype EvidenceTier = PLATINUM | GOLD | SILVER | BRONZE

text \<open>The enum's values: \<open>PLATINUM = 1\<close>, \<open>GOLD = 2\<close>, \<open>SILVER = 3\<close>, \<open>BRONZE = 4\<close>.\<close>

fun tier_value :: "EvidenceTier \<Rightarrow> int" where
  "tier_value PLATINUM = 1"
| "tier_value GOLD = 2"
| "tier_value SILVER = 3"
| "tier_value BRONZE = 4"

text \<open>
  The dataclass \<open>Evidence\<close>. \<open>extracted_data\<close> is an optional dictionary from a label to the
  matches found in the snippet. The fields \<open>counter_evidence\<close> and \<open>supporting_evidence\<close> are
  never read or written by the code and are left out.
\<close>

record Evidence =
  claim :: string
  source :: string
  url :: string
  tier :: EvidenceTier
  relevance_score :: real
  recency_score :: real
  credibility_score :: real
  raw_text :: string
  extracted_data :: "(string \<times> string list) list option"

text \<open>The dictionary \<open>tier_weights\<close> inside the property \<open>total_score\<close>.\<close>

fun tier_weights :: "EvidenceTier \<Rightarrow> real" where
  "tier_weights PLATINUM = 10"
| "tier_weights GOLD = 5"
| "tier_weights SILVER = 2"
| "tier_weights BRONZE = 1"

definition total_score :: "Evidence \<Rightarrow> real" where
  "total_score e =
     (let base_weight = tier_weights (tier e)
      in base_weight * relevance_score e * recency_score e * credibility_score e)"


subsection \<open>Float products\<close>




subsection \<open>\<open>EvidenceScorer\<close>\<close>

definition score_evidence_collection :: "Evidence list \<Rightarrow> real" where
  "score_evidence_collection evidence_list =
     (if evidence_list = [] then 0
      else sum_list (map total_score evidence_list) / real (length evidence_list))"


subsection \<open>Strings: \<open>in\<close>, \<open>lower\<close>, \<open>\d\<close>\<close>

text \<open>
  \<open>w in s\<close> on Python strings: \<open>w\<close> occurs in \<open>s\<close> as a contiguous block. The recursion
  tries every start position.
\<close>

fun str_contains :: "string \<Rightarrow> string \<Rightarrow> bool" where
  "str_contains w [] = (w = [])"
| "str_contains w (c # cs) = (prefix w (c # cs) \<or> str_contains w cs)"

text \<open>
  \<open>str.lower()\<close> on the ASCII letters. The other 8-bit characters are kept as they are;
  Python maps the accented capitals of Latin-1 to accented small letters, never to an ASCII
  letter, so membership of an ASCII word in the lowered string is the same.
\<close>

definition lower_char :: "char \<Rightarrow> char" where
  "lower_char c =
     (case map_of (zip ''ABCDEFGHIJKLMNOPQRSTUVWXYZ'' ''abcdefghijklmnopqrstuvwxyz'') c of
        Some d \<Rightarrow> d
      | None \<Rightarrow> c)"

definition lower :: "string \<Rightarrow> string" where
  "lower s = map lower_char s"

text \<open>\<open>re.search(r'\d+', s)\<close> finds a match exactly when \<open>s\<close> has a decimal digit.\<close>

definition is_digit :: "char \<Rightarrow> bool" where
  "is_digit c \<longleftrightarrow> c \<in> set ''0123456789''"

definition has_digit :: "string \<Rightarrow> bool" where
  "has_digit s \<longleftrightarrow> list_ex is_digit s"

subsection \<open>\<open>EvidenceValidator\<close>\<close>

text \<open>
  Each rule returns the pair \<open>(is_valid, issue)\<close>, the issue being \<open>None\<close> when the rule
  passes. A Python dictionary or \<open>None\<close> is false in a condition when it is \<open>None\<close> or empty.
\<close>

type_synonym rule_result = "bool \<times> string option"

definition truthy_data :: "(string \<times> string list) list option \<Rightarrow> bool" where
  "truthy_data d \<longleftrightarrow> (case d of None \<Rightarrow> False | Some kvs \<Rightarrow> kvs \<noteq> [])"

definition check_has_source :: "Evidence \<Rightarrow> rule_result" where
  "check_has_source evidence =
     (if source evidence = [] \<or> source evidence = ''unknown''
      then (False, Some ''No valid source provided'')
      else (True, None))"

definition data_words :: "string list" where
  "data_words = [''study'', ''report'', ''analysis'', ''data'']"

definition check_has_data :: "Evidence \<Rightarrow> rule_result" where
  "check_has_data evidence =
     (if \<not> truthy_data (extracted_data evidence) then
        (let has_numbers = has_digit (claim evidence);
             has_specifics = list_ex (\<lambda>word. str_contains word (lower (claim evidence))) data_words
         in if \<not> has_numbers \<and> \<not> has_specifics
            then (False, Some ''No specific data or metrics provided'')
            else (True, None))
      else (True, None))"

definition opinion_signals :: "string list" where
  "opinion_signals = [''i think'', ''i believe'', ''in my opinion'', ''i feel'', ''seems like'']"

definition check_not_pure_opinion :: "Evidence \<Rightarrow> rule_result" where
  "check_not_pure_opinion evidence =
     (let claim_lower = lower (claim evidence)
      in if list_ex (\<lambda>signal. str_contains signal claim_lower) opinion_signals
         then (False, Some ''Evidence appears to be opinion-based'')
         else (True, None))"

definition check_recency :: "Evidence \<Rightarrow> rule_result" where
  "check_recency evidence =
     (if recency_score evidence < 0.3 then (False, Some ''Evidence may be outdated'')
      else (True, None))"

definition check_credibility :: "Evidence \<Rightarrow> rule_result" where
  "check_credibility evidence =
     (if credibility_score evidence < 0.3 then (False, Some ''Source has low credibility'')
      else (True, None))"

text \<open>The dictionary \<open>validation_rules\<close>, in the order its items are visited.\<close>

definition validation_rules :: "(string \<times> (Evidence \<Rightarrow> rule_result)) list" where
  "validation_rules =
     [(''has_source'', check_has_source),
      (''has_data'', check_has_data),
      (''not_opinion'', check_not_pure_opinion),
      (''recent_enough'', check_recency),
      (''credible_source'', check_credibility)]"

text \<open>The loop of \<open>validate_evidence\<close>: the issue of every failed rule is appended.\<close>

fun collect_issues ::
  "(string \<times> (Evidence \<Rightarrow> rule_result)) list \<Rightarrow> Evidence \<Rightarrow> string option list \<Rightarrow>
   string option list" where
  "collect_issues [] evidence issues = issues"
| "collect_issues ((rule_name, rule_func) # rules) evidence issues =
     (case rule_func evidence of
        (is_valid, issue) \<Rightarrow>
          collect_issues rules evidence (if \<not> is_valid then issues @ [issue] else issues))"

definition validate_evidence :: "Evidence \<Rightarrow> bool \<times> string option list" where
  "validate_evidence evidence =
     (let issues = collect_issues validation_rules evidence []
      in (length issues = 0, issues))"

section \<open>The judge (\<open>agents/judge_agent.py\<close>)\<close>

datatype VerdictType = APPROVED | REJECTED | CONDITIONAL | NEEDS_RESEARCH

datatype JudgePersonality = PRAGMATIST | INNOVATOR | USER_ADVOCATE

text \<open>
  The dataclass \<open>Verdict\<close>. \<open>key_factors\<close> holds each category with its score; the source
  formats the pair as the text \<open>"category: score"\<close> with one decimal.
\<close>

record Verdict =
  decision :: VerdictType
  confidence :: real
  key_factors :: "(string \<times> real) list"
  winning_arguments :: "string list"
  losing_arguments :: "string list"
  alternative_suggestion :: "string option"
  estimated_savings :: "real option"
  implementation_recommendation :: string
  risk_assessment :: string

text \<open>
  An argument is a dictionary; a field is \<open>None\<close> when the key is absent. The source reads
  \<open>evidence_tier\<close>, \<open>impact\<close> (in \<open>evaluate_debate\<close>) and \<open>issue\<close> by subscript, which raises
  \<open>KeyError\<close> on an absent key, and the other keys by \<open>get\<close> with a default.
\<close>

record Argument =
  evidence_tier :: "int option"
  categories :: "string list option"
  impact :: "real option"
  severity :: "string option"
  issue :: "string option"
  cost_estimate :: "real option"
  summary :: "string option"

type_synonym scores = "(string \<times> real) list"

record JudgeAgent =
  personality :: JudgePersonality
  scoring_weights :: scores

fun get_scoring_weights :: "JudgePersonality \<Rightarrow> scores" where
  "get_scoring_weights PRAGMATIST =
     [(''technical_feasibility'', 0.30), (''roi'', 0.35), (''risk'', 0.20),
      (''innovation'', 0.05), (''user_impact'', 0.10)]"
| "get_scoring_weights INNOVATOR =
     [(''technical_feasibility'', 0.15), (''roi'', 0.20), (''risk'', 0.10),
      (''innovation'', 0.35), (''user_impact'', 0.20)]"
| "get_scoring_weights USER_ADVOCATE =
     [(''technical_feasibility'', 0.15), (''roi'', 0.15), (''risk'', 0.10),
      (''innovation'', 0.10), (''user_impact'', 0.50)]"

text \<open>\<open>JudgeAgent.__init__\<close>: the weights are fixed by the personality.\<close>

definition JudgeAgent_init :: "JudgePersonality \<Rightarrow> JudgeAgent" where
  "JudgeAgent_init p = \<lparr>personality = p, scoring_weights = get_scoring_weights p\<rparr>"

definition initial_scores :: scores where
  "initial_scores =
     [(''technical_feasibility'', 0), (''roi'', 0), (''risk'', 0),
      (''innovation'', 0), (''user_impact'', 0)]"

definition evidence_weight :: "int \<Rightarrow> real" where
  "evidence_weight t =
     (if t = 1 then 1.0 else if t = 2 then 0.7 else if t = 3 then 0.4 else 0.2)"

text \<open>
  The inner loop over an argument's categories: a category that is a key of \<open>scores\<close> gets
  \<open>impact * weight\<close> added (a PRO argument) or subtracted (a CON argument).
\<close>

fun add_to_categories ::
  "bool \<Rightarrow> real \<Rightarrow> Argument \<Rightarrow> string list \<Rightarrow> scores \<Rightarrow> error + scores" where
  "add_to_categories is_pro weight arg [] scores = Inr scores"
| "add_to_categories is_pro weight arg (category # rest) scores =
     (case map_of scores category of
        None \<Rightarrow> add_to_categories is_pro weight arg rest scores
      | Some old \<Rightarrow>
          (case impact arg of
             None \<Rightarrow> Inl (KeyError ''impact'')
           | Some i \<Rightarrow>
               add_to_categories is_pro weight arg rest
                 (AList.update category
                    (if is_pro then old + i * weight else old - i * weight) scores)))"

text \<open>The two loops over the PRO and the CON arguments differ in the sign only.\<close>

fun analyze_arguments :: "bool \<Rightarrow> Argument list \<Rightarrow> scores \<Rightarrow> error + scores" where
  "analyze_arguments is_pro [] scores = Inr scores"
| "analyze_arguments is_pro (arg # args) scores =
     (case evidence_tier arg of
        None \<Rightarrow> Inl (KeyError ''evidence_tier'')
      | Some t \<Rightarrow>
          (case add_to_categories is_pro (evidence_weight t) arg
                  (case categories arg of None \<Rightarrow> [] | Some cs \<Rightarrow> cs) scores of
             Inl e \<Rightarrow> Inl e
           | Inr scores' \<Rightarrow> analyze_arguments is_pro args scores'))"

definition evaluate_debate ::
  "Argument list \<Rightarrow> Argument list \<Rightarrow> 'ev \<Rightarrow> error + scores" where
  "evaluate_debate pro_arguments con_arguments evidence =
     (case analyze_arguments True pro_arguments initial_scores of
        Inl e \<Rightarrow> Inl e
      | Inr s1 \<Rightarrow>
          (case analyze_arguments False con_arguments s1 of
             Inl e \<Rightarrow> Inl e
           | Inr s2 \<Rightarrow> Inr (map (\<lambda>(category, v). (category, max 0 (min 100 (v + 50)))) s2)))"

definition calculate_final_score :: "JudgeAgent \<Rightarrow> scores \<Rightarrow> real" where
  "calculate_final_score self scores =
     foldl (\<lambda>final_score (category, score).
              final_score + score *
                (case map_of (scoring_weights self) category of None \<Rightarrow> 0 | Some w \<Rightarrow> w))
       0 scores"

definition critical_blockers :: "string list" where
  "critical_blockers =
     [''security_breach_risk'', ''legal_violation'', ''data_loss_potential'',
      ''negative_roi_guaranteed'']"

definition determine_verdict :: "real \<Rightarrow> string list \<Rightarrow> VerdictType" where
  "determine_verdict final_score critical_issues =
     (if critical_issues \<noteq> [] \<and>
         list_ex (\<lambda>blocker. blocker \<in> set critical_issues) critical_blockers
      then REJECTED
      else if final_score \<ge> 70 then APPROVED
      else if final_score \<ge> 50 then CONDITIONAL
      else if final_score \<ge> 40 then NEEDS_RESEARCH
      else REJECTED)"

definition alternatives :: "(string \<times> string) list" where
  "alternatives =
     [(''too_complex'', ''Consider a simpler MVP version focusing on core functionality''),
      (''too_expensive'', ''Explore third-party solutions or open-source alternatives''),
      (''low_user_value'', ''Conduct user research to identify actual pain points''),
      (''high_risk'', ''Implement a small prototype to validate assumptions''),
      (''poor_roi'', ''Focus on quick wins with immediate impact''),
      (''maintenance_burden'', ''Consider a buy-vs-build analysis'')]"

fun first_alternative :: "(string \<times> string) list \<Rightarrow> string \<Rightarrow> string option" where
  "first_alternative [] issue_text = None"
| "first_alternative ((key, suggestion) # rest) issue_text =
     (if str_contains key (lower issue_text) then Some suggestion
      else first_alternative rest issue_text)"

fun generate_alternative :: "string \<Rightarrow> string list \<Rightarrow> string" where
  "generate_alternative requirement [] = ''Consider gathering more data before proceeding''"
| "generate_alternative requirement (issue_text # issues) =
     (case first_alternative alternatives issue_text of
        Some suggestion \<Rightarrow> suggestion
      | None \<Rightarrow> generate_alternative requirement issues)"

fun get_implementation_recommendation :: "VerdictType \<Rightarrow> string" where
  "get_implementation_recommendation APPROVED =
     ''Proceed with implementation, but monitor adoption closely''"
| "get_implementation_recommendation CONDITIONAL = ''Address identified issues before proceeding''"
| "get_implementation_recommendation NEEDS_RESEARCH =
     ''Conduct further research and user validation''"
| "get_implementation_recommendation REJECTED =
     ''Do not proceed. Consider the suggested alternative''"

text \<open>The source's labels end in a pictogram, which is outside ASCII and left out here.\<close>

definition assess_risk_level :: "scores \<Rightarrow> string" where
  "assess_risk_level scores =
     (let risk_score = 100 - (case map_of scores ''risk'' of None \<Rightarrow> 50 | Some v \<Rightarrow> v)
      in if risk_score \<ge> 70 then ''HIGH RISK''
         else if risk_score \<ge> 40 then ''MODERATE RISK''
         else ''LOW RISK'')"

text \<open>
  The list comprehension \<open>[arg["issue"] for arg in con_arguments if arg.get("severity") ==
  "critical"]\<close>.
\<close>

fun critical_issues_of :: "Argument list \<Rightarrow> error + string list" where
  "critical_issues_of [] = Inr []"
| "critical_issues_of (arg # args) =
     (if severity arg = Some ''critical'' then
        (case issue arg of
           None \<Rightarrow> Inl (KeyError ''issue'')
         | Some i \<Rightarrow>
             (case critical_issues_of args of Inl e \<Rightarrow> Inl e | Inr rest \<Rightarrow> Inr (i # rest)))
      else critical_issues_of args)"

definition get_or :: "'a \<Rightarrow> 'a option \<Rightarrow> 'a" where
  "get_or d v = (case v of None \<Rightarrow> d | Some x \<Rightarrow> x)"

text \<open>
  \<open>sorted(args, key=lambda x: x.get("impact", 0), reverse=True)\<close>: a stable sort by
  decreasing impact.
\<close>

definition sorted_by_impact :: "Argument list \<Rightarrow> Argument list" where
  "sorted_by_impact args = sort_key (\<lambda>x. - get_or 0 (impact x)) args"

definition render_verdict ::
  "JudgeAgent \<Rightarrow> string \<Rightarrow> (string \<times> Argument list) list \<Rightarrow> 'ev \<Rightarrow> error + Verdict" where
  "render_verdict self requirement debate_transcript evidence_summary =
     (let pro_arguments = get_or [] (map_of debate_transcript ''pro_arguments'');
          con_arguments = get_or [] (map_of debate_transcript ''con_arguments'')
      in case evaluate_debate pro_arguments con_arguments evidence_summary of
           Inl e \<Rightarrow> Inl e
         | Inr scores \<Rightarrow>
            (let final_score = calculate_final_score self scores
             in case critical_issues_of con_arguments of
                  Inl e \<Rightarrow> Inl e
                | Inr critical_issues \<Rightarrow>
                   (let verdict_type = determine_verdict final_score critical_issues;
                        alternative =
                          (if verdict_type \<in> {REJECTED, CONDITIONAL}
                           then Some (generate_alternative requirement critical_issues)
                           else None);
                        savings =
                          (if verdict_type = REJECTED
                           then (if con_arguments \<noteq> []
                                 then Some (sum_list (map (\<lambda>arg. get_or 0 (cost_estimate arg))
                                                        con_arguments))
                                 else None)
                           else None);
                        sorted_pro = sorted_by_impact pro_arguments;
                        sorted_con = sorted_by_impact con_arguments;
                        winning_args =
                          (if verdict_type = REJECTED then take 3 sorted_con else take 3 sorted_pro);
                        losing_args =
                          (if verdict_type = REJECTED then take 3 sorted_pro else take 3 sorted_con)
                    in Inr \<lparr>decision = verdict_type,
                            confidence = min 100 (\<bar>final_score - 50\<bar> * 2),
                            key_factors = scores,
                            winning_arguments = map (\<lambda>arg. get_or [] (summary arg)) winning_args,
                            losing_arguments = map (\<lambda>arg. get_or [] (summary arg)) losing_args,
                            alternative_suggestion = alternative,
                            estimated_savings = savings,
                            implementation_recommendation =
                              get_implementation_recommendation verdict_type,
                            risk_assessment = assess_risk_level scores\<rparr>)))"

text \<open>
  An argument that the judge can process without a \<open>KeyError\<close>: it has an evidence tier
  and an impact, and an issue when its severity is critical.
\<close>

definition complete_argument :: "Argument \<Rightarrow> bool" where
  "complete_argument arg \<longleftrightarrow>
     evidence_tier arg \<noteq> None \<and> impact arg \<noteq> None \<and>
     (severity arg = Some ''critical'' \<longrightarrow> issue arg \<noteq> None)"

section \<open>The debate orchestrator (\<open>arena/debate_orchestrator.py\<close>)\<close>

datatype DebatePhase =
  PRE_BATTLE | OPENING_STATEMENTS | EVIDENCE_DUEL | CROSS_EXAMINATION | FINAL_ARGUMENTS
  | JUDGMENT | COMPLETE

text \<open>An agent is used through its attribute \<open>role\<close> only.\<close>

record Agent =
  role :: string

text \<open>
  The dictionary that \<open>_gather_evidence\<close> returns, with its keys \<open>source\<close>, \<open>claim\<close>,
  \<open>tier\<close>, \<open>relevance\<close> and \<open>url\<close> (prefixed here, the evidence record has fields of the
  same names).
\<close>

record EvidenceDict =
  ev_source :: string
  ev_claim :: string
  ev_tier :: int
  ev_relevance :: real
  ev_url :: string

text \<open>The values that the content of an event holds.\<close>

datatype py_value = VStr string | VInt int | VReal real | VEvidence EvidenceDict | VNone

type_synonym dict = "(string \<times> py_value) list"

text \<open>The dataclass \<open>DebateEvent\<close>, without its timestamp.\<close>

record DebateEvent =
  event_type :: string
  agent :: string
  content :: dict
  visual_effect :: "string option"
  sound_effect :: "string option"
  importance :: int

text \<open>The dataclass \<open>DebateState\<close>, without \<open>start_time\<close>.\<close>

record DebateState =
  phase :: DebatePhase
  round_number :: int
  pro_confidence :: real
  con_confidence :: real
  pro_evidence_score :: real
  con_evidence_score :: real
  current_speaker :: "string option"
  transcript :: "dict list"
  evidence_presented :: "dict list"
  objections :: "dict list"
  dramatic_moments :: "dict list"

definition DebateState_default :: DebateState where
  "DebateState_default =
     \<lparr>phase = PRE_BATTLE, round_number = 0, pro_confidence = 50.0, con_confidence = 50.0,
      pro_evidence_score = 0.0, con_evidence_score = 0.0, current_speaker = None,
      transcript = [], evidence_presented = [], objections = [], dramatic_moments = []\<rparr>"

text \<open>
  The configuration dictionary, and the optional dictionary \<open>debate_config\<close> whose entries
  replace the defaults (\<open>None\<close> for a key it does not have).
\<close>

record Config =
  max_rounds :: int
  time_per_round :: int
  evidence_weight_multiplier :: real
  objection_threshold :: real
  dramatic_moment_threshold :: real
  enable_special_effects :: bool
  streaming_delay :: real

record ConfigUpdate =
  new_max_rounds :: "int option"
  new_time_per_round :: "int option"
  new_evidence_weight_multiplier :: "real option"
  new_objection_threshold :: "real option"
  new_dramatic_moment_threshold :: "real option"
  new_enable_special_effects :: "bool option"
  new_streaming_delay :: "real option"

definition default_config :: Config where
  "default_config =
     \<lparr>max_rounds = 4, time_per_round = 45, evidence_weight_multiplier = 1.5,
      objection_threshold = 0.7, dramatic_moment_threshold = 20,
      enable_special_effects = True, streaming_delay = 0.5\<rparr>"

definition apply_config_update :: "ConfigUpdate \<Rightarrow> Config \<Rightarrow> Config" where
  "apply_config_update u c =
     \<lparr>max_rounds = get_or (max_rounds c) (new_max_rounds u),
      time_per_round = get_or (time_per_round c) (new_time_per_round u),
      evidence_weight_multiplier =
        get_or (evidence_weight_multiplier c) (new_evidence_weight_multiplier u),
      objection_threshold = get_or (objection_threshold c) (new_objection_threshold u),
      dramatic_moment_threshold =
        get_or (dramatic_moment_threshold c) (new_dramatic_moment_threshold u),
      enable_special_effects = get_or (enable_special_effects c) (new_enable_special_effects u),
      streaming_delay = get_or (streaming_delay c) (new_streaming_delay u)\<rparr>"

text \<open>
  The orchestrator object. \<open>primary_pro\<close> and \<open>primary_con\<close> are attributes that only
  \<open>_initialize_debate\<close> sets; reading one before that raises \<open>AttributeError\<close>. The event
  queue is the list of the events put so far, oldest first.
\<close>

record Orchestrator =
  pro_agents :: "Agent list"
  con_agents :: "Agent list"
  judge_agent :: Agent
  state :: DebateState
  config :: Config
  event_queue :: "DebateEvent list"
  primary_pro :: "Agent option"
  primary_con :: "Agent option"

definition DebateOrchestrator_init ::
  "Agent list \<Rightarrow> Agent list \<Rightarrow> Agent \<Rightarrow> ConfigUpdate option \<Rightarrow> Orchestrator" where
  "DebateOrchestrator_init pro con judge debate_config =
     \<lparr>pro_agents = pro, con_agents = con, judge_agent = judge,
      state = DebateState_default,
      config = (case debate_config of None \<Rightarrow> default_config
                | Some u \<Rightarrow> apply_config_update u default_config),
      event_queue = [], primary_pro = None, primary_con = None\<rparr>"

subsection \<open>The random draws of a run\<close>

text \<open>
  One sub-round of the evidence duel draws a tier (\<open>random.randint(1, 4)\<close>) and a relevance
  (\<open>random.random()\<close>) for each side, and a number (\<open>random.random()\<close>) for each objection
  attempt; the objection draw of a side is consumed only if the attempt is made.
\<close>

record DuelDraws =
  pro_tier :: int
  pro_relevance :: real
  pro_objection :: real
  con_tier :: int
  con_relevance :: real
  con_objection :: real

text \<open>
  All draws of one run: the two \<open>random.choice\<close> picks of the speakers, the draws of the
  duel's sub-rounds by index, and the two \<open>random.choice\<close> picks of \<open>_evaluate_response\<close>.
\<close>

record Randomness =
  pro_pick :: nat
  con_pick :: nat
  duel :: "nat \<Rightarrow> DuelDraws"
  con_response_pick :: nat
  pro_response_pick :: nat


text \<open>\<open>random.choice(seq)\<close>, the draw given as an index: \<open>IndexError\<close> on an empty list.\<close>

definition random_choice :: "nat \<Rightarrow> 'a list \<Rightarrow> error + 'a" where
  "random_choice k xs = (if xs = [] then Inl IndexError else Inr (xs ! (k mod length xs)))"

subsection \<open>Events\<close>

definition emit_event :: "DebateEvent \<Rightarrow> Orchestrator \<Rightarrow> Orchestrator" where
  "emit_event event self = self\<lparr>event_queue := event_queue self @ [event]\<rparr>"

text \<open>
  The keyword arguments of one \<open>_emit_event\<close> call; the dataclass defaults are
  \<open>visual_effect = None\<close>, \<open>sound_effect = None\<close> and \<open>importance = 1\<close>.
\<close>

definition event ::
  "string \<Rightarrow> string \<Rightarrow> dict \<Rightarrow> string option \<Rightarrow> string option \<Rightarrow> int \<Rightarrow> DebateEvent" where
  "event et ag c ve se imp =
     \<lparr>event_type = et, agent = ag, content = c, visual_effect = ve, sound_effect = se,
      importance = imp\<rparr>"

definition update_confidence :: "Orchestrator \<Rightarrow> Orchestrator" where
  "update_confidence self =
     emit_event
       (event ''confidence_update'' ''system''
          [(''pro_confidence'', VReal (pro_confidence (state self))),
           (''con_confidence'', VReal (con_confidence (state self)))]
          (Some ''meter_change'') None 1)
       self"

definition check_dramatic_moment :: "Orchestrator \<Rightarrow> Orchestrator" where
  "check_dramatic_moment self =
     (let confidence_diff = \<bar>pro_confidence (state self) - con_confidence (state self)\<bar>
      in if confidence_diff > dramatic_moment_threshold (config self) then
           (let leading_team =
                  (if pro_confidence (state self) > con_confidence (state self)
                   then ''PRO'' else ''CON'');
                self1 = emit_event
                  (event ''dramatic_moment'' ''system''
                     [(''type'', VStr ''momentum_shift''),
                      (''leading_team'', VStr leading_team),
                      (''confidence_gap'', VReal confidence_diff),
                      (''message'', VStr (leading_team @ '' team takes commanding lead!''))]
                     (Some ''screen_shake'') (Some ''crowd_gasp'') 4)
                  self
            in self1\<lparr>state := (state self1)\<lparr>dramatic_moments :=
                 dramatic_moments (state self1) @
                   [[(''round'', VInt (round_number (state self1))),
                     (''type'', VStr ''momentum_shift''),
                     (''details'', VStr (leading_team @ '' dominance''))]]\<rparr>\<rparr>)
         else self)"

subsection \<open>Helper methods\<close>

text \<open>
  In the methods below the parameter \<open>agent\<close> is written \<open>a\<close> and the local \<open>impact\<close> is
  written \<open>impact_points\<close>, since \<open>agent\<close> and \<open>impact\<close> are field names of records here.
\<close>

text \<open>\<open>str\<close> of an integer, for the f-string that names the visual effect of a tier.\<close>

fun digits_of :: "nat \<Rightarrow> string" where
  "digits_of n =
     (if n < 10 then [''0123456789'' ! n]
      else digits_of (n div 10) @ [''0123456789'' ! (n mod 10)])"

definition str_of_int :: "int \<Rightarrow> string" where
  "str_of_int i = (if i < 0 then ''-'' @ digits_of (nat (- i)) else digits_of (nat i))"

definition get_agent_argument :: "Agent \<Rightarrow> string \<Rightarrow> string" where
  "get_agent_argument a prompt = role a @ [CHR 0x27] @ ''s argument about: '' @ prompt"

definition gather_evidence :: "Agent \<Rightarrow> string \<Rightarrow> string \<Rightarrow> int \<Rightarrow> real \<Rightarrow> EvidenceDict" where
  "gather_evidence a requirement stance tier_draw relevance_draw =
     \<lparr>ev_source = ''Research Database'',
      ev_claim = ''Evidence '' @ (if stance = ''support'' then ''supporting'' else ''opposing'')
                   @ '' '' @ requirement,
      ev_tier = tier_draw,
      ev_relevance = relevance_draw,
      ev_url = ''https://example.com/evidence''\<rparr>"

definition present_evidence :: "Agent \<Rightarrow> EvidenceDict \<Rightarrow> string \<Rightarrow> Orchestrator \<Rightarrow> Orchestrator" where
  "present_evidence a evidence team self =
     (let impact_points = (5 - ev_tier evidence) * 5;
          self1 = emit_event
            (event ''evidence_presented'' (role a)
               [(''evidence'', VEvidence evidence), (''team'', VStr team),
                (''impact'', VInt impact_points)]
               (Some (''evidence_tier_'' @ str_of_int (ev_tier evidence)))
               None (min 5 (6 - ev_tier evidence)))
            self;
          self2 =
            (if team = ''PRO'' then
               self1\<lparr>state := (state self1)
                 \<lparr>pro_confidence := pro_confidence (state self1) + real_of_int impact_points,
                  pro_evidence_score := pro_evidence_score (state self1) + real_of_int impact_points\<rparr>\<rparr>
             else
               self1\<lparr>state := (state self1)
                 \<lparr>con_confidence := con_confidence (state self1) + real_of_int impact_points,
                  con_evidence_score := con_evidence_score (state self1) + real_of_int impact_points\<rparr>\<rparr>)
      in update_confidence self2)"

definition generate_critical_question :: "Agent \<Rightarrow> string \<Rightarrow> string \<Rightarrow> string" where
  "generate_critical_question a requirement strategy =
     ''Critical question from '' @ role a @ '' about '' @ requirement"

definition respond_to_question :: "Agent \<Rightarrow> string \<Rightarrow> string" where
  "respond_to_question a question = role a @ [CHR 0x27] @ ''s response to: '' @ question"

definition generate_objection :: "Agent \<Rightarrow> EvidenceDict \<Rightarrow> string" where
  "generate_objection a evidence = ''This evidence is flawed because...''"

definition evaluate_response :: "nat \<Rightarrow> string \<Rightarrow> string" where
  "evaluate_response pick response = [''strong'', ''moderate'', ''weak'', ''evasive''] ! (pick mod 4)"

text \<open>
  \<open>_attempt_objection\<close>, with the number \<open>r\<close> that \<open>random.random()\<close> returns: the method
  returns at once when \<open>r\<close> is greater than the configured threshold.
\<close>

definition attempt_objection ::
  "real \<Rightarrow> Agent \<Rightarrow> EvidenceDict \<Rightarrow> string \<Rightarrow> Orchestrator \<Rightarrow> Orchestrator" where
  "attempt_objection r objecting_agent evidence team self =
     (if r > objection_threshold (config self) then self
      else
        (let objection = generate_objection objecting_agent evidence;
             self1 = emit_event
               (event ''objection_raised'' (role objecting_agent)
                  [(''objection'', VStr ''OBJECTION!''), (''reason'', VStr objection),
                   (''target_evidence'', VEvidence evidence), (''team'', VStr team)]
                  (Some ''objection_splash'') (Some ''objection_shout'') 4)
               self;
             self2 =
               (if team = ''PRO'' then
                  self1\<lparr>state := (state self1)
                    \<lparr>con_confidence := con_confidence (state self1) - 10\<rparr>\<rparr>
                else
                  self1\<lparr>state := (state self1)
                    \<lparr>pro_confidence := pro_confidence (state self1) - 10\<rparr>\<rparr>)
         in update_confidence self2))"

subsection \<open>The phases\<close>

definition initialize_debate :: "string \<Rightarrow> Randomness \<Rightarrow> Orchestrator \<Rightarrow> error + Orchestrator" where
  "initialize_debate requirement rnd self =
     (let self1 = self\<lparr>state := (state self)\<lparr>phase := PRE_BATTLE\<rparr>\<rparr>;
          self2 = emit_event
            (event ''phase_change'' ''system''
               [(''phase'', VStr ''pre_battle''),
                (''message'', VStr (''Analyzing requirement: '' @ requirement)),
                (''action'', VStr ''Agents preparing arguments...'')]
               (Some ''fade_in'') None 1)
            self1
      in case random_choice (pro_pick rnd) (pro_agents self2) of
           Inl e \<Rightarrow> Inl e
         | Inr pp \<Rightarrow>
            (case random_choice (con_pick rnd) (con_agents self2) of
               Inl e \<Rightarrow> Inl e
             | Inr pc \<Rightarrow>
                Inr (emit_event
                  (event ''agent_selection'' ''system''
                     [(''pro_speaker'', VStr (role pp)), (''con_speaker'', VStr (role pc)),
                      (''message'', VStr ''Champions selected for battle!'')]
                     (Some ''spotlight'') None 3)
                  (self2\<lparr>primary_pro := Some pp, primary_con := Some pc\<rparr>))))"

definition run_opening_statements :: "string \<Rightarrow> Orchestrator \<Rightarrow> error + Orchestrator" where
  "run_opening_statements requirement self =
     (case primary_pro self of
        None \<Rightarrow> Inl (AttributeError ''primary_pro'')
      | Some pp \<Rightarrow>
         (case primary_con self of
            None \<Rightarrow> Inl (AttributeError ''primary_con'')
          | Some pc \<Rightarrow>
             (let self1 = self\<lparr>state := (state self)
                    \<lparr>phase := OPENING_STATEMENTS, round_number := 1\<rparr>\<rparr>;
                  self2 = emit_event
                    (event ''phase_change'' ''system''
                       [(''phase'', VStr ''opening_statements''), (''round'', VInt 1),
                        (''message'', VStr ''ROUND 1: Opening Statements'')]
                       (Some ''banner_slide'') (Some ''bell_ring'') 1)
                    self1;
                  pro_opening = get_agent_argument pp
                    (''Make a compelling opening statement for why we should implement: ''
                       @ requirement);
                  self3 = emit_event
                    (event ''agent_speaks'' (role pp)
                       [(''team'', VStr ''PRO''), (''argument'', VStr pro_opening),
                        (''confidence_impact'', VInt 5)]
                       (Some ''slide_left'') None 1)
                    self2;
                  self4 = self3\<lparr>state := (state self3)
                    \<lparr>pro_confidence := pro_confidence (state self3) + 5\<rparr>\<rparr>;
                  self5 = update_confidence self4;
                  con_opening = get_agent_argument pc
                    (''Make a compelling opening statement for why we should NOT implement: ''
                       @ requirement);
                  self6 = emit_event
                    (event ''agent_speaks'' (role pc)
                       [(''team'', VStr ''CON''), (''argument'', VStr con_opening),
                        (''confidence_impact'', VInt 5)]
                       (Some ''slide_right'') None 1)
                    self5;
                  self7 = self6\<lparr>state := (state self6)
                    \<lparr>con_confidence := con_confidence (state self6) + 5\<rparr>\<rparr>
              in Inr (update_confidence self7))))"

text \<open>The body of the loop of \<open>_run_evidence_duel\<close>, for the draws of one sub-round.\<close>

definition evidence_round ::
  "string \<Rightarrow> Agent \<Rightarrow> Agent \<Rightarrow> DuelDraws \<Rightarrow> Orchestrator \<Rightarrow> Orchestrator" where
  "evidence_round requirement pp pc d self =
     (let pro_evidence = gather_evidence pp requirement ''support'' (pro_tier d) (pro_relevance d);
          self1 = present_evidence pp pro_evidence ''PRO'' self;
          self2 = (if ev_tier pro_evidence \<ge> 3
                   then attempt_objection (pro_objection d) pc pro_evidence ''CON'' self1
                   else self1);
          con_evidence = gather_evidence pc requirement ''oppose'' (con_tier d) (con_relevance d);
          self3 = present_evidence pc con_evidence ''CON'' self2;
          self4 = (if ev_tier con_evidence \<ge> 3
                   then attempt_objection (con_objection d) pp con_evidence ''PRO'' self3
                   else self3)
      in check_dramatic_moment self4)"

definition evidence_rounds :: nat where
  "evidence_rounds = 3"

definition run_evidence_duel ::
  "string \<Rightarrow> Randomness \<Rightarrow> Orchestrator \<Rightarrow> error + Orchestrator" where
  "run_evidence_duel requirement rnd self =
     (let self1 = self\<lparr>state := (state self)\<lparr>phase := EVIDENCE_DUEL, round_number := 2\<rparr>\<rparr>;
          self2 = emit_event
            (event ''phase_change'' ''system''
               [(''phase'', VStr ''evidence_duel''), (''round'', VInt 2),
                (''message'', VStr ''ROUND 2: Evidence Duel!'')]
               (Some ''lightning_flash'') (Some ''thunder'') 4)
            self1
      in case primary_pro self2 of
           None \<Rightarrow> Inl (AttributeError ''primary_pro'')
         | Some pp \<Rightarrow>
            (case primary_con self2 of
               None \<Rightarrow> Inl (AttributeError ''primary_con'')
             | Some pc \<Rightarrow>
                Inr (foldl (\<lambda>s i. evidence_round requirement pp pc (duel rnd i) s) self2
                       [0..<evidence_rounds])))"

definition run_cross_examination ::
  "string \<Rightarrow> Randomness \<Rightarrow> Orchestrator \<Rightarrow> error + Orchestrator" where
  "run_cross_examination requirement rnd self =
     (let self1 = self\<lparr>state := (state self)
            \<lparr>phase := CROSS_EXAMINATION, round_number := 3\<rparr>\<rparr>;
          self2 = emit_event
            (event ''phase_change'' ''system''
               [(''phase'', VStr ''cross_examination''), (''round'', VInt 3),
                (''message'', VStr ''ROUND 3: Cross-Examination!'')]
               (Some ''split_screen'') None 3)
            self1
      in case primary_pro self2 of
           None \<Rightarrow> Inl (AttributeError ''primary_pro'')
         | Some pp \<Rightarrow>
            (case primary_con self2 of
               None \<Rightarrow> Inl (AttributeError ''primary_con'')
             | Some pc \<Rightarrow>
                (let pro_question =
                       generate_critical_question pp requirement ''challenge_opposition'';
                     self3 = emit_event
                       (event ''critical_question'' (role pp)
                          [(''question'', VStr pro_question), (''target'', VStr (role pc))]
                          (Some ''zoom_in'') None 1)
                       self2;
                     con_response = respond_to_question pc pro_question;
                     self4 = emit_event
                       (event ''question_response'' (role pc)
                          [(''response'', VStr con_response),
                           (''effectiveness'',
                              VStr (evaluate_response (con_response_pick rnd) con_response))]
                          None None 1)
                       self3;
                     con_question = generate_critical_question pc requirement ''expose_weakness'';
                     self5 = emit_event
                       (event ''critical_question'' (role pc)
                          [(''question'', VStr con_question), (''target'', VStr (role pp))]
                          (Some ''zoom_in'') None 1)
                       self4;
                     pro_response = respond_to_question pp con_question
                 in Inr (emit_event
                       (event ''question_response'' (role pp)
                          [(''response'', VStr pro_response),
                           (''effectiveness'',
                              VStr (evaluate_response (pro_response_pick rnd) pro_response))]
                          None None 1)
                       self5))))"

definition knockout_finish :: "string \<Rightarrow> Agent \<Rightarrow> Orchestrator \<Rightarrow> Orchestrator" where
  "knockout_finish winning_team winning_agent self =
     (let self1 = emit_event
            (event ''dramatic_moment'' ''system''
               [(''type'', VStr ''knockout''), (''winning_team'', VStr winning_team),
                (''message'', VStr ''KNOCKOUT! Devastating victory!'')]
               (Some ''knockout_animation'') (Some ''knockout_bell'') 5)
            self;
          finishing_argument = get_agent_argument winning_agent
            (''Deliver your finishing argument - you'' @ [CHR 0x27]
               @ ''ve completely dominated this debate!'')
      in emit_event
           (event ''finishing_move'' (role winning_agent)
              [(''argument'', VStr finishing_argument), (''team'', VStr winning_team)]
              (Some ''epic_finish'') (Some ''victory_fanfare'') 5)
           self1)"

text \<open>One turn of the loop of \<open>_normal_final_arguments\<close>.\<close>

definition final_argument_turn :: "string \<Rightarrow> Agent \<times> string \<Rightarrow> Orchestrator \<Rightarrow> Orchestrator" where
  "final_argument_turn requirement turn self =
     (case turn of
        (a, team) \<Rightarrow>
          (let final_arg = get_agent_argument a
                 (''Make your final, most compelling argument about '' @ requirement)
           in emit_event
                (event ''final_argument'' (role a)
                   [(''argument'', VStr final_arg), (''team'', VStr team)]
                   (Some ''spotlight_focus'') None 1)
                self))"

definition normal_final_arguments :: "string \<Rightarrow> Orchestrator \<Rightarrow> error + Orchestrator" where
  "normal_final_arguments requirement self =
     (case primary_pro self of
        None \<Rightarrow> Inl (AttributeError ''primary_pro'')
      | Some pp \<Rightarrow>
         (case primary_con self of
            None \<Rightarrow> Inl (AttributeError ''primary_con'')
          | Some pc \<Rightarrow>
             Inr (foldl (\<lambda>s turn. final_argument_turn requirement turn s) self
                    [(pp, ''PRO''), (pc, ''CON'')])))"

definition run_final_arguments :: "string \<Rightarrow> Orchestrator \<Rightarrow> error + Orchestrator" where
  "run_final_arguments requirement self =
     (let self1 = self\<lparr>state := (state self)\<lparr>phase := FINAL_ARGUMENTS, round_number := 4\<rparr>\<rparr>;
          self2 = emit_event
            (event ''phase_change'' ''system''
               [(''phase'', VStr ''final_arguments''), (''round'', VInt 4),
                (''message'', VStr ''ROUND 4: Final Arguments!'')]
               (Some ''dramatic_pause'') None 4)
            self1
      in if pro_confidence (state self2) < 10 then
           (case primary_con self2 of
              None \<Rightarrow> Inl (AttributeError ''primary_con'')
            | Some pc \<Rightarrow> Inr (knockout_finish ''CON'' pc self2))
         else if con_confidence (state self2) < 10 then
           (case primary_pro self2 of
              None \<Rightarrow> Inl (AttributeError ''primary_pro'')
            | Some pp \<Rightarrow> Inr (knockout_finish ''PRO'' pp self2))
         else normal_final_arguments requirement self2)"

text \<open>The dictionary that \<open>_get_judge_verdict\<close> returns.\<close>

record JudgeVerdict =
  jv_decision :: string
  jv_confidence :: real
  jv_reasoning :: string
  jv_alternative :: string
  jv_savings :: int

definition get_judge_verdict :: "string \<Rightarrow> Orchestrator \<Rightarrow> JudgeVerdict" where
  "get_judge_verdict requirement self =
     \<lparr>jv_decision = (if con_confidence (state self) > pro_confidence (state self)
                      then ''REJECTED'' else ''APPROVED''),
      jv_confidence = \<bar>con_confidence (state self) - pro_confidence (state self)\<bar>,
      jv_reasoning = ''Based on the evidence presented...'',
      jv_alternative = ''Consider this alternative approach...'',
      jv_savings = (if con_confidence (state self) > pro_confidence (state self)
                    then 2100000 else 0)\<rparr>"

definition run_judgment :: "string \<Rightarrow> Orchestrator \<Rightarrow> JudgeVerdict \<times> Orchestrator" where
  "run_judgment requirement self =
     (let self1 = self\<lparr>state := (state self)\<lparr>phase := JUDGMENT\<rparr>\<rparr>;
          self2 = emit_event
            (event ''phase_change'' ''system''
               [(''phase'', VStr ''judgment''), (''message'', VStr ''The Judge deliberates...'')]
               (Some ''gavel_raise'') (Some ''drum_roll'') 5)
            self1;
          verdict = get_judge_verdict requirement self2;
          self3 = emit_event
            (event ''verdict_rendered'' (role (judge_agent self2))
               [(''verdict'', VStr (jv_decision verdict)),
                (''confidence'', VReal (jv_confidence verdict)),
                (''reasoning'', VStr (jv_reasoning verdict)),
                (''alternative'', VStr (jv_alternative verdict)),
                (''savings'', VInt (jv_savings verdict))]
               (Some (if jv_decision verdict = ''REJECTED'' then ''gavel_strike'' else ''confetti''))
               (Some (if jv_decision verdict = ''REJECTED'' then ''gavel'' else ''applause''))
               5)
            self2
      in (verdict, self3\<lparr>state := (state self3)\<lparr>phase := COMPLETE\<rparr>\<rparr>))"

text \<open>
  The result bundle of \<open>_compile_results\<close>, without the wall-clock \<open>duration\<close>. The
  confidences and evidence scores of the summary are read from the state as they are.
\<close>

record DebateSummary =
  rounds :: int
  final_confidence_pro :: real
  final_confidence_con :: real
  evidence_scores_pro :: real
  evidence_scores_con :: real
  summary_dramatic_moments :: "dict list"
  summary_objections :: nat

record Results =
  result_requirement :: string
  result_verdict :: JudgeVerdict
  debate_summary :: DebateSummary
  result_transcript :: "dict list"
  result_evidence :: "dict list"
  replay_available :: bool

definition compile_results :: "JudgeVerdict \<Rightarrow> Orchestrator \<Rightarrow> Results" where
  "compile_results verdict self =
     \<lparr>result_requirement = ''The analyzed requirement'',
      result_verdict = verdict,
      debate_summary =
        \<lparr>rounds = round_number (state self),
         final_confidence_pro = pro_confidence (state self),
         final_confidence_con = con_confidence (state self),
         evidence_scores_pro = pro_evidence_score (state self),
         evidence_scores_con = con_evidence_score (state self),
         summary_dramatic_moments = dramatic_moments (state self),
         summary_objections = length (objections (state self))\<rparr>,
      result_transcript = transcript (state self),
      result_evidence = evidence_presented (state self),
      replay_available = True\<rparr>"

text \<open>
  \<open>analyze_requirement\<close>: the phases in their order. The result is returned with the
  orchestrator as the run leaves it.
\<close>

definition analyze_requirement ::
  "string \<Rightarrow> Randomness \<Rightarrow> Orchestrator \<Rightarrow> error + (Results \<times> Orchestrator)" where
  "analyze_requirement requirement rnd self =
     (case initialize_debate requirement rnd self of
        Inl e \<Rightarrow> Inl e
      | Inr self1 \<Rightarrow>
         (case run_opening_statements requirement self1 of
            Inl e \<Rightarrow> Inl e
          | Inr self2 \<Rightarrow>
             (case run_evidence_duel requirement rnd self2 of
                Inl e \<Rightarrow> Inl e
              | Inr self3 \<Rightarrow>
                 (case run_cross_examination requirement rnd self3 of
                    Inl e \<Rightarrow> Inl e
                  | Inr self4 \<Rightarrow>
                     (case run_final_arguments requirement self4 of
                        Inl e \<Rightarrow> Inl e
                      | Inr self5 \<Rightarrow>
                         (case run_judgment requirement self5 of
                            (verdict, self6) \<Rightarrow>
                              Inr (compile_results verdict self6, self6)))))))"

text \<open>
  What a run reports: the confidence values carried by the \<open>confidence_update\<close> events of a
  queue.
\<close>

definition reported_confidences :: "DebateEvent list \<Rightarrow> real list" where
  "reported_confidences events =
     concat (map (\<lambda>e. if event_type e = ''confidence_update''
                       then concat (map (\<lambda>(k, v). case v of VReal x \<Rightarrow> [x] | _ \<Rightarrow> []) (content e))
                       else [])
               events)"



section \<open>Concrete inputs\<close>

text \<open>Records used to evaluate the definitions on explicit inputs.\<close>

definition evidence_a :: Evidence where
  "evidence_a = \<lparr>claim = ''Survey of 400 teams on rollout cost'', source = ''arxiv.org'',
     url = ''https://arxiv.org/abs/1'', tier = PLATINUM, relevance_score = 3/4, recency_score = 1,
     credibility_score = 1, raw_text = ''Survey of 400 teams'', extracted_data = None\<rparr>"

definition evidence_b :: Evidence where
  "evidence_b = \<lparr>claim = ''cloud adoption grows quickly'', source = ''gartner.com'',
     url = ''https://gartner.com/r'', tier = GOLD, relevance_score = 1, recency_score = 1,
     credibility_score = 1, raw_text = ''Adoption rose 50% in a year'',
     extracted_data = Some [(''percentages'', [''50'']), (''metrics'', [''50''])]\<rparr>"

definition evidence_c :: Evidence where
  "evidence_c = \<lparr>claim = ''Teams like the new editor'', source = ''medium.com'',
     url = ''https://medium.com/p'', tier = BRONZE, relevance_score = 1/2, recency_score = 1/2,
     credibility_score = 1/2, raw_text = ''Teams like the new editor'', extracted_data = Some []\<rparr>"



definition argument_breach :: Argument where
  "argument_breach = \<lparr>evidence_tier = Some 4, categories = Some [''risk''], impact = Some 5,
     severity = Some ''critical'', issue = Some ''security_breach_risk'',
     cost_estimate = Some 1000, summary = Some ''Stores credentials in plain text''\<rparr>"

definition argument_roi :: Argument where
  "argument_roi = \<lparr>evidence_tier = Some 1, categories = Some [''roi''], impact = Some 40,
     severity = None, issue = None, cost_estimate = None,
     summary = Some ''Pays back within a year''\<rparr>"

definition transcript_breach :: "(string \<times> Argument list) list" where
  "transcript_breach = [(''pro_arguments'', [argument_roi]), (''con_arguments'', [argument_breach])]"

definition agent_pro :: Agent where
  "agent_pro = \<lparr>role = ''Product Visionary''\<rparr>"

definition agent_con :: Agent where
  "agent_con = \<lparr>role = ''Risk Analyst''\<rparr>"

definition agent_judge :: Agent where
  "agent_judge = \<lparr>role = ''Judge (Pragmatist)''\<rparr>"

definition draws_extreme :: DuelDraws where
  "draws_extreme = \<lparr>pro_tier = 1, pro_relevance = 1/2, pro_objection = 1/2,
     con_tier = 4, con_relevance = 1/2, con_objection = 1/2\<rparr>"

definition randomness_extreme :: Randomness where
  "randomness_extreme = \<lparr>pro_pick = 0, con_pick = 0, duel = (\<lambda>i. draws_extreme),
     con_response_pick = 0, pro_response_pick = 0\<rparr>"

definition orchestrator_fresh :: Orchestrator where
  "orchestrator_fresh = DebateOrchestrator_init [agent_pro] [agent_con] agent_judge None"




definition evidence_silver :: EvidenceDict where
  "evidence_silver = gather_evidence agent_pro ''add dark mode'' ''support'' 3 (1/2)"

definition draws_silver :: DuelDraws where
  "draws_silver = \<lparr>pro_tier = 3, pro_relevance = 1/2, pro_objection = 1/2,
     con_tier = 2, con_relevance = 1/2, con_objection = 1/2\<rparr>"

section \<open>Properties of the evidence engine\<close>

lemma str_contains_sublist: "str_contains w s \<longleftrightarrow> sublist w s"
  by (induction s) (simp_all add: sublist_Cons_right)


text \<open>
  Claim C6. For every evidence record, \<open>total_score\<close> is the tier weight times relevance
  times recency times credibility; the tier weights are 10, 5, 2 and 1 for PLATINUM, GOLD,
  SILVER and BRONZE, so the weight strictly decreases as the tier number grows from 1 to 4.
\<close>

theorem total_score_formula:
  "total_score e = tier_weights (tier e) * relevance_score e * recency_score e * credibility_score e
   \<and> tier_weights PLATINUM = 10 \<and> tier_weights GOLD = 5
   \<and> tier_weights SILVER = 2 \<and> tier_weights BRONZE = 1
   \<and> (\<forall>t1 t2. tier_value t1 < tier_value t2 \<longrightarrow> tier_weights t2 < tier_weights t1)"
proof -
  have mono: "tier_weights t2 < tier_weights t1" if "tier_value t1 < tier_value t2" for t1 t2
    using that by (cases t1; cases t2) simp_all
  show ?thesis
    using mono by (simp add: total_score_def)
qed

theorem total_score_formula_witness:
  "total_score evidence_a = 15 / 2 \<and> tier_value PLATINUM < tier_value GOLD
   \<and> tier_weights GOLD < tier_weights PLATINUM"
  using total_score_formula [of evidence_a] by (simp add: evidence_a_def)























lemma collect_issues_step:
  "collect_issues ((n, f) # rules) e issues =
     collect_issues rules e (if \<not> fst (f e) then issues @ [snd (f e)] else issues)"
  by (cases "f e") simp

lemma collect_issues_keeps: "set issues \<subseteq> set (collect_issues rules e issues)"
proof (induction rules arbitrary: issues)
  case Nil
  show ?case by simp
next
  case (Cons r rules)
  obtain n f where r: "r = (n, f)" by (cases r)
  from Cons.IH [of "issues @ [snd (f e)]"] Cons.IH [of issues]
  show ?case unfolding r collect_issues_step by auto
qed

lemma collect_issues_failed:
  "(n, f) \<in> set rules \<Longrightarrow> \<not> fst (f e) \<Longrightarrow> snd (f e) \<in> set (collect_issues rules e issues)"
proof (induction rules arbitrary: issues)
  case Nil
  then show ?case by simp
next
  case (Cons r rules)
  obtain m g where r: "r = (m, g)" by (cases r)
  show ?case
  proof (cases "(n, f) = r")
    case True
    then have "f = g" using r by simp
    with Cons.prems(2) collect_issues_keeps [of "issues @ [snd (g e)]" rules e]
    show ?thesis unfolding r collect_issues_step by auto
  next
    case False
    with Cons.prems have "(n, f) \<in> set rules" by simp
    from Cons.IH [OF this Cons.prems(2)] show ?thesis
      unfolding r collect_issues_step by simp
  qed
qed

lemma collect_issues_nonempty:
  "(n, f) \<in> set rules \<Longrightarrow> \<not> fst (f e) \<Longrightarrow> collect_issues rules e issues \<noteq> []"
  using collect_issues_failed [of n f rules e issues] by auto

text \<open>
  Claim C8, as stated, fails for a record whose \<open>extracted_data\<close> is not empty: the rule
  passes although the claim text has no digit and none of the four words.
\<close>

theorem has_data_counterexample:
  "fst (check_has_data evidence_b) \<and> \<not> has_digit (claim evidence_b)
   \<and> \<not> list_ex (\<lambda>word. str_contains word (claim evidence_b)) data_words"
  by (simp add: check_has_data_def truthy_data_def evidence_b_def has_digit_def is_digit_def
      data_words_def)

text \<open>
  Claim C8, amended. The \<open>has_data\<close> rule passes if and only if the record's
  \<open>extracted_data\<close> is not empty, or its claim contains a digit, or its claim in lower case
  contains one of "study", "report", "analysis", "data" as a substring. When the rule fails,
  validation still returns: the record is flagged invalid and the issue string
  "No specific data or metrics provided" is among the accumulated issues.
\<close>

theorem has_data_rule:
  "(fst (check_has_data e) \<longleftrightarrow>
      truthy_data (extracted_data e) \<or> has_digit (claim e) \<or>
      (\<exists>word \<in> set data_words. sublist word (lower (claim e))))
   \<and> (\<not> fst (check_has_data e) \<longrightarrow>
        check_has_data e = (False, Some ''No specific data or metrics provided'') \<and>
        \<not> fst (validate_evidence e) \<and>
        Some ''No specific data or metrics provided'' \<in> set (snd (validate_evidence e)))"
proof -
  have iff: "fst (check_has_data e) \<longleftrightarrow>
      truthy_data (extracted_data e) \<or> has_digit (claim e) \<or>
      (\<exists>word \<in> set data_words. sublist word (lower (claim e)))"
    by (simp add: check_has_data_def Let_def list_ex_iff str_contains_sublist)
  have rule: "(''has_data'', check_has_data) \<in> set validation_rules"
    by (simp add: validation_rules_def)
  have fails: "check_has_data e = (False, Some ''No specific data or metrics provided'')"
    if "\<not> fst (check_has_data e)"
    using that by (simp add: check_has_data_def Let_def split: if_splits)
  have flagged: "\<not> fst (validate_evidence e) \<and>
        Some ''No specific data or metrics provided'' \<in> set (snd (validate_evidence e))"
    if "\<not> fst (check_has_data e)"
    using collect_issues_failed [OF rule that, of "[]"] collect_issues_nonempty [OF rule that, of "[]"]
      fails [OF that]
    by (simp add: validate_evidence_def Let_def)
  show ?thesis using iff fails flagged by blast
qed

theorem has_data_rule_witness:
  "\<not> fst (check_has_data evidence_c)
   \<and> validate_evidence evidence_c = (False, [Some ''No specific data or metrics provided''])"
proof -
  have v: "validate_evidence evidence_c = (False, [Some ''No specific data or metrics provided''])"
    by (simp add: validate_evidence_def validation_rules_def check_has_source_def
        check_has_data_def check_not_pure_opinion_def check_recency_def check_credibility_def
        truthy_data_def has_digit_def is_digit_def data_words_def opinion_signals_def
        lower_def lower_char_def evidence_c_def)
  have f: "\<not> fst (check_has_data evidence_c)"
    by (simp add: check_has_data_def truthy_data_def has_digit_def is_digit_def data_words_def
        lower_def lower_char_def evidence_c_def)
  from has_data_rule [of evidence_c] f v show ?thesis by simp
qed

section \<open>Properties of the judge\<close>

text \<open>
  Claim C4. With no PRO argument, no CON argument and no evidence, each of the five category
  scores is 50 after recentering, the weights of every judge personality sum to 1, the final
  score is 50 for every personality, the verdict is CONDITIONAL and the confidence is 0
  (whether the transcript has the two keys with empty lists or lacks them).
\<close>

theorem zero_arguments_verdict:
  "evaluate_debate [] [] ev =
     Inr [(''technical_feasibility'', 50), (''roi'', 50), (''risk'', 50),
          (''innovation'', 50), (''user_impact'', 50)]
   \<and> sum_list (map snd (get_scoring_weights p)) = 1
   \<and> map_sum id (calculate_final_score (JudgeAgent_init p)) (evaluate_debate [] [] ev) = Inr 50
   \<and> map_sum id (\<lambda>v. (decision v, confidence v))
        (render_verdict (JudgeAgent_init p) requirement
           [(''pro_arguments'', []), (''con_arguments'', [])] ev) = Inr (CONDITIONAL, 0)
   \<and> map_sum id (\<lambda>v. (decision v, confidence v))
        (render_verdict (JudgeAgent_init p) requirement [] ev) = Inr (CONDITIONAL, 0)"
proof -
  have ev: "evaluate_debate [] [] ev =
     Inr [(''technical_feasibility'', 50), (''roi'', 50), (''risk'', 50),
          (''innovation'', 50), (''user_impact'', 50)]"
    by (simp add: evaluate_debate_def initial_scores_def)
  have w: "sum_list (map snd (get_scoring_weights p)) = 1"
    by (cases p) simp_all
  have fs: "calculate_final_score (JudgeAgent_init p)
      [(''technical_feasibility'', 50), (''roi'', 50), (''risk'', 50),
       (''innovation'', 50), (''user_impact'', 50)] = 50"
    by (cases p) (simp_all add: calculate_final_score_def JudgeAgent_init_def)
  have dv: "determine_verdict 50 [] = CONDITIONAL"
    by (simp add: determine_verdict_def)
  show ?thesis
    by (simp add: ev w fs dv render_verdict_def get_or_def Let_def)
qed

lemma add_to_categories_total:
  "impact arg \<noteq> None \<Longrightarrow> \<exists>s. add_to_categories is_pro w arg cs scores = Inr s"
  by (induction cs arbitrary: scores) (auto split: option.splits)

lemma analyze_arguments_total:
  "\<forall>arg \<in> set args. complete_argument arg \<Longrightarrow> \<exists>s. analyze_arguments is_pro args scores = Inr s"
proof (induction args arbitrary: scores)
  case Nil
  show ?case by simp
next
  case (Cons arg args)
  from Cons.prems have c: "complete_argument arg" and rest: "\<forall>a \<in> set args. complete_argument a"
    by simp_all
  from c obtain t where t: "evidence_tier arg = Some t" and i: "impact arg \<noteq> None"
    by (auto simp: complete_argument_def)
  from add_to_categories_total [OF i] obtain s1 where
    s1: "add_to_categories is_pro (evidence_weight t) arg (case categories arg of None \<Rightarrow> [] | Some cs \<Rightarrow> cs) scores = Inr s1"
    by blast
  from Cons.IH [OF rest, of s1] show ?case by (simp add: t s1)
qed

lemma evaluate_debate_total:
  assumes "\<forall>arg \<in> set pro. complete_argument arg" and "\<forall>arg \<in> set con. complete_argument arg"
  shows "\<exists>s. evaluate_debate pro con ev = Inr s"
proof -
  from analyze_arguments_total [OF assms(1)] obtain s1 where
    s1: "analyze_arguments True pro initial_scores = Inr s1" by blast
  from analyze_arguments_total [OF assms(2)] obtain s2 where
    s2: "analyze_arguments False con s1 = Inr s2" by blast
  show ?thesis by (simp add: evaluate_debate_def s1 s2)
qed

lemma critical_issues_of_total:
  "\<forall>arg \<in> set args. complete_argument arg \<Longrightarrow> \<exists>crit. critical_issues_of args = Inr crit"
  by (induction args) (auto simp: complete_argument_def)

lemma critical_issues_of_member:
  "critical_issues_of args = Inr crit \<Longrightarrow> arg \<in> set args \<Longrightarrow>
   severity arg = Some ''critical'' \<Longrightarrow> issue arg = Some b \<Longrightarrow> b \<in> set crit"
proof (induction args arbitrary: crit)
  case Nil
  then show ?case by simp
next
  case (Cons a args)
  show ?case
  proof (cases "severity a = Some ''critical''")
    case True
    with Cons.prems(1) obtain i rest where
      i: "issue a = Some i" and rest: "critical_issues_of args = Inr rest" and crit: "crit = i # rest"
      by (auto split: option.splits sum.splits)
    show ?thesis
    proof (cases "arg = a")
      case True
      with Cons.prems(4) i crit show ?thesis by simp
    next
      case False
      with Cons.prems(2) have "arg \<in> set args" by simp
      from Cons.IH [OF rest this Cons.prems(3,4)] crit show ?thesis by simp
    qed
  next
    case False
    with Cons.prems(1) have rest: "critical_issues_of args = Inr crit" by simp
    from False Cons.prems(3) have "arg \<noteq> a" by auto
    with Cons.prems(2) have "arg \<in> set args" by simp
    from Cons.IH [OF rest this Cons.prems(3,4)] show ?thesis .
  qed
qed

lemma determine_verdict_blocker:
  "b \<in> set critical_issues \<Longrightarrow> b \<in> set critical_blockers \<Longrightarrow>
   determine_verdict final_score critical_issues = REJECTED"
  by (auto simp: determine_verdict_def list_ex_iff)

lemma render_verdict_decision:
  "render_verdict self requirement t ev = Inr v \<Longrightarrow>
   \<exists>s crit. evaluate_debate (get_or [] (map_of t ''pro_arguments''))
              (get_or [] (map_of t ''con_arguments'')) ev = Inr s
     \<and> critical_issues_of (get_or [] (map_of t ''con_arguments'')) = Inr crit
     \<and> decision v = determine_verdict (calculate_final_score self s) crit
     \<and> confidence v = min 100 (\<bar>calculate_final_score self s - 50\<bar> * 2)"
  unfolding render_verdict_def Let_def
  by (auto split: sum.splits)

lemma render_verdict_total:
  "evaluate_debate (get_or [] (map_of t ''pro_arguments''))
     (get_or [] (map_of t ''con_arguments'')) ev = Inr s \<Longrightarrow>
   critical_issues_of (get_or [] (map_of t ''con_arguments'')) = Inr crit \<Longrightarrow>
   \<exists>v. render_verdict self requirement t ev = Inr v"
  unfolding render_verdict_def Let_def by simp

text \<open>
  Claim C5. If a CON argument has severity "critical" and an issue of the blocker set
  (security_breach_risk, legal_violation, data_loss_potential, negative_roi_guaranteed), then
  every verdict the judge returns is REJECTED, whatever the final score; and the judge does
  return a verdict when no argument lacks a key that the code reads by subscript.
\<close>

theorem critical_blocker_rejects:
  assumes con: "map_of t ''con_arguments'' = Some con_arguments"
    and arg: "arg \<in> set con_arguments"
    and sev: "severity arg = Some ''critical''"
    and iss: "issue arg = Some b"
    and blk: "b \<in> set critical_blockers"
  shows "(\<forall>v. render_verdict self requirement t ev = Inr v \<longrightarrow> decision v = REJECTED)
    \<and> ((\<forall>a \<in> set (get_or [] (map_of t ''pro_arguments'')). complete_argument a) \<and>
        (\<forall>a \<in> set con_arguments. complete_argument a) \<longrightarrow>
        (\<exists>v. render_verdict self requirement t ev = Inr v))"
proof (intro conjI allI impI)
  fix v assume v: "render_verdict self requirement t ev = Inr v"
  from render_verdict_decision [OF v] con obtain s crit where
    crit: "critical_issues_of con_arguments = Inr crit"
    and d: "decision v = determine_verdict (calculate_final_score self s) crit"
    by (auto simp: get_or_def)
  from critical_issues_of_member [OF crit arg sev iss] have "b \<in> set crit" .
  from determine_verdict_blocker [OF this blk] d show "decision v = REJECTED" by simp
next
  assume wf: "(\<forall>a \<in> set (get_or [] (map_of t ''pro_arguments'')). complete_argument a) \<and>
        (\<forall>a \<in> set con_arguments. complete_argument a)"
  have c: "get_or [] (map_of t ''con_arguments'') = con_arguments"
    by (simp add: con get_or_def)
  from evaluate_debate_total [of "get_or [] (map_of t ''pro_arguments'')" con_arguments ev] wf
  obtain s where s: "evaluate_debate (get_or [] (map_of t ''pro_arguments'')) con_arguments ev = Inr s"
    by blast
  from critical_issues_of_total [of con_arguments] wf obtain crit where
    crit: "critical_issues_of con_arguments = Inr crit" by blast
  from render_verdict_total [of t ev s crit self requirement] s crit c
  show "\<exists>v. render_verdict self requirement t ev = Inr v" by simp
qed

theorem critical_blocker_rejects_witness:
  "map_of transcript_breach ''con_arguments'' = Some [argument_breach]
   \<and> severity argument_breach = Some ''critical''
   \<and> issue argument_breach = Some ''security_breach_risk''
   \<and> ''security_breach_risk'' \<in> set critical_blockers
   \<and> complete_argument argument_roi \<and> complete_argument argument_breach
   \<and> determine_verdict (319 / 5) [] = CONDITIONAL
   \<and> (\<exists>v. render_verdict (JudgeAgent_init PRAGMATIST) ''single sign-on'' transcript_breach () = Inr v
          \<and> decision v = REJECTED)"
proof -
  have con: "map_of transcript_breach ''con_arguments'' = Some [argument_breach]"
    by (simp add: transcript_breach_def)
  have pro: "get_or [] (map_of transcript_breach ''pro_arguments'') = [argument_roi]"
    by (simp add: transcript_breach_def get_or_def)
  have sev: "severity argument_breach = Some ''critical''"
    and iss: "issue argument_breach = Some ''security_breach_risk''"
    by (simp_all add: argument_breach_def)
  have blk: "''security_breach_risk'' \<in> set critical_blockers"
    by (simp add: critical_blockers_def)
  have wf: "complete_argument argument_roi" "complete_argument argument_breach"
    by (simp_all add: complete_argument_def argument_roi_def argument_breach_def)
  have sc: "determine_verdict (319 / 5) [] = CONDITIONAL"
    by (simp add: determine_verdict_def)
  have arg: "argument_breach \<in> set [argument_breach]" by simp
  note inst = critical_blocker_rejects [OF con arg sev iss blk,
      of "JudgeAgent_init PRAGMATIST" "''single sign-on''" "()"]
  have wfs: "(\<forall>a \<in> set (get_or [] (map_of transcript_breach ''pro_arguments'')). complete_argument a)
      \<and> (\<forall>a \<in> set [argument_breach]. complete_argument a)"
    using wf by (simp add: pro)
  from inst wfs obtain v where
    v: "render_verdict (JudgeAgent_init PRAGMATIST) ''single sign-on'' transcript_breach () = Inr v"
    by blast
  with inst have "decision v = REJECTED" by blast
  with v have "\<exists>v. render_verdict (JudgeAgent_init PRAGMATIST) ''single sign-on'' transcript_breach () = Inr v
          \<and> decision v = REJECTED"
    by blast
  with con sev iss blk wf sc show ?thesis by simp
qed

section \<open>Properties of the orchestrator\<close>

lemma emit_event_fields:
  "state (emit_event e s) = state s"
  "config (emit_event e s) = config s"
  "primary_pro (emit_event e s) = primary_pro s"
  "primary_con (emit_event e s) = primary_con s"
  "judge_agent (emit_event e s) = judge_agent s"
  "pro_agents (emit_event e s) = pro_agents s"
  "con_agents (emit_event e s) = con_agents s"
  "event_queue (emit_event e s) = event_queue s @ [e]"
  by (simp_all add: emit_event_def)

lemma reported_confidences_append:
  "reported_confidences (xs @ ys) = reported_confidences xs @ reported_confidences ys"
  by (simp add: reported_confidences_def)

lemma reported_confidences_other:
  "reported_confidences [] = []"
  "et \<noteq> ''confidence_update'' \<Longrightarrow>
     reported_confidences (event et ag c ve se imp # es) = reported_confidences es"
  by (simp_all add: reported_confidences_def event_def)

lemma update_confidence_fields:
  "state (update_confidence s) = state s"
  "config (update_confidence s) = config s"
  "primary_pro (update_confidence s) = primary_pro s"
  "primary_con (update_confidence s) = primary_con s"
  "judge_agent (update_confidence s) = judge_agent s"
  by (simp_all add: update_confidence_def emit_event_fields)

lemma update_confidence_reports:
  "reported_confidences (event_queue (update_confidence s)) =
     reported_confidences (event_queue s) @ [pro_confidence (state s), con_confidence (state s)]"
  by (simp add: update_confidence_def emit_event_fields reported_confidences_append)
     (simp add: reported_confidences_def event_def)

lemma present_evidence_fields:
  "config (present_evidence a ev team s) = config s"
  "primary_pro (present_evidence a ev team s) = primary_pro s"
  "primary_con (present_evidence a ev team s) = primary_con s"
  "judge_agent (present_evidence a ev team s) = judge_agent s"
  by (simp_all add: present_evidence_def Let_def update_confidence_fields emit_event_fields)

lemma present_evidence_pro:
  "pro_confidence (state (present_evidence a ev ''PRO'' s)) =
     pro_confidence (state s) + real_of_int ((5 - ev_tier ev) * 5)"
  "con_confidence (state (present_evidence a ev ''PRO'' s)) = con_confidence (state s)"
  by (simp_all add: present_evidence_def Let_def update_confidence_fields emit_event_fields)

lemma present_evidence_con:
  "con_confidence (state (present_evidence a ev ''CON'' s)) =
     con_confidence (state s) + real_of_int ((5 - ev_tier ev) * 5)"
  "pro_confidence (state (present_evidence a ev ''CON'' s)) = pro_confidence (state s)"
  by (simp_all add: present_evidence_def Let_def update_confidence_fields emit_event_fields)

lemma present_evidence_reports:
  "reported_confidences (event_queue (present_evidence a ev team s)) =
     reported_confidences (event_queue s) @
       [pro_confidence (state (present_evidence a ev team s)),
        con_confidence (state (present_evidence a ev team s))]"
  by (simp add: present_evidence_def Let_def update_confidence_fields update_confidence_reports
      emit_event_fields reported_confidences_append reported_confidences_other)

lemma attempt_objection_fields:
  "config (attempt_objection r a ev team s) = config s"
  "primary_pro (attempt_objection r a ev team s) = primary_pro s"
  "primary_con (attempt_objection r a ev team s) = primary_con s"
  "judge_agent (attempt_objection r a ev team s) = judge_agent s"
  by (simp_all add: attempt_objection_def Let_def update_confidence_fields emit_event_fields)

lemma attempt_objection_con:
  "pro_confidence (state (attempt_objection r a ev ''CON'' s)) =
     pro_confidence (state s) - (if r \<le> objection_threshold (config s) then 10 else 0)"
  "con_confidence (state (attempt_objection r a ev ''CON'' s)) = con_confidence (state s)"
  by (simp_all add: attempt_objection_def Let_def update_confidence_fields emit_event_fields)

lemma attempt_objection_pro:
  "con_confidence (state (attempt_objection r a ev ''PRO'' s)) =
     con_confidence (state s) - (if r \<le> objection_threshold (config s) then 10 else 0)"
  "pro_confidence (state (attempt_objection r a ev ''PRO'' s)) = pro_confidence (state s)"
  by (simp_all add: attempt_objection_def Let_def update_confidence_fields emit_event_fields)

lemma attempt_objection_reports:
  "reported_confidences (event_queue (attempt_objection r a ev team s)) =
     reported_confidences (event_queue s) @
       (if r \<le> objection_threshold (config s)
        then [pro_confidence (state (attempt_objection r a ev team s)),
              con_confidence (state (attempt_objection r a ev team s))]
        else [])"
  by (simp add: attempt_objection_def Let_def update_confidence_fields update_confidence_reports
      emit_event_fields reported_confidences_append reported_confidences_other)

lemma check_dramatic_moment_fields:
  "config (check_dramatic_moment s) = config s"
  "primary_pro (check_dramatic_moment s) = primary_pro s"
  "primary_con (check_dramatic_moment s) = primary_con s"
  "judge_agent (check_dramatic_moment s) = judge_agent s"
  "pro_confidence (state (check_dramatic_moment s)) = pro_confidence (state s)"
  "con_confidence (state (check_dramatic_moment s)) = con_confidence (state s)"
  by (simp_all add: check_dramatic_moment_def Let_def emit_event_fields)

lemma check_dramatic_moment_reports:
  "reported_confidences (event_queue (check_dramatic_moment s)) =
     reported_confidences (event_queue s)"
  by (simp add: check_dramatic_moment_def Let_def emit_event_fields reported_confidences_append
      reported_confidences_other)

lemma gather_evidence_tier:
  "ev_tier (gather_evidence a requirement stance t r) = t"
  by (simp add: gather_evidence_def)

lemma evidence_round_fields:
  "config (evidence_round requirement pp pc d s) = config s"
  "primary_pro (evidence_round requirement pp pc d s) = primary_pro s"
  "primary_con (evidence_round requirement pp pc d s) = primary_con s"
  "judge_agent (evidence_round requirement pp pc d s) = judge_agent s"
  by (simp_all add: evidence_round_def Let_def check_dramatic_moment_fields
      attempt_objection_fields present_evidence_fields)

lemma evidence_round_pro_confidence:
  "pro_confidence (state (evidence_round requirement pp pc d s)) =
     pro_confidence (state s) + real_of_int ((5 - pro_tier d) * 5)
       - (if 3 \<le> pro_tier d \<and> pro_objection d \<le> objection_threshold (config s) then 10 else 0)"
  by (simp add: evidence_round_def Let_def check_dramatic_moment_fields gather_evidence_tier
      attempt_objection_fields present_evidence_fields attempt_objection_con attempt_objection_pro
      present_evidence_pro present_evidence_con)

lemma evidence_round_con_confidence:
  "con_confidence (state (evidence_round requirement pp pc d s)) =
     con_confidence (state s) + real_of_int ((5 - con_tier d) * 5)
       - (if 3 \<le> con_tier d \<and> con_objection d \<le> objection_threshold (config s) then 10 else 0)"
  by (simp add: evidence_round_def Let_def check_dramatic_moment_fields gather_evidence_tier
      attempt_objection_fields present_evidence_fields attempt_objection_con attempt_objection_pro
      present_evidence_pro present_evidence_con)



lemma duel_fold_fields:
  "config (foldl (\<lambda>s i. evidence_round requirement pp pc (draws i) s) s ixs) = config s"
  "primary_pro (foldl (\<lambda>s i. evidence_round requirement pp pc (draws i) s) s ixs) = primary_pro s"
  "primary_con (foldl (\<lambda>s i. evidence_round requirement pp pc (draws i) s) s ixs) = primary_con s"
  "judge_agent (foldl (\<lambda>s i. evidence_round requirement pp pc (draws i) s) s ixs) = judge_agent s"
  by (induction ixs arbitrary: s) (simp_all add: evidence_round_fields)


lemma knockout_finish_fields:
  "state (knockout_finish team a s) = state s"
  "config (knockout_finish team a s) = config s"
  "judge_agent (knockout_finish team a s) = judge_agent s"
  "primary_pro (knockout_finish team a s) = primary_pro s"
  "primary_con (knockout_finish team a s) = primary_con s"
  by (simp_all add: knockout_finish_def Let_def emit_event_fields)

lemma knockout_finish_reports:
  "reported_confidences (event_queue (knockout_finish team a s)) =
     reported_confidences (event_queue s)"
  by (simp add: knockout_finish_def Let_def emit_event_fields reported_confidences_append
      reported_confidences_other)

lemma final_argument_turn_fields:
  "state (final_argument_turn requirement turn s) = state s"
  "config (final_argument_turn requirement turn s) = config s"
  "judge_agent (final_argument_turn requirement turn s) = judge_agent s"
  "primary_pro (final_argument_turn requirement turn s) = primary_pro s"
  "primary_con (final_argument_turn requirement turn s) = primary_con s"
  by (cases turn, simp add: final_argument_turn_def Let_def emit_event_fields)+

lemma final_argument_turn_reports:
  "reported_confidences (event_queue (final_argument_turn requirement turn s)) =
     reported_confidences (event_queue s)"
  by (cases turn) (simp add: final_argument_turn_def Let_def emit_event_fields
      reported_confidences_append reported_confidences_other)

lemma initialize_debate_result:
  assumes "pro_agents s \<noteq> []" and "con_agents s \<noteq> []"
  shows "\<exists>s'. initialize_debate requirement rnd s = Inr s'
     \<and> state s' = (state s)\<lparr>phase := PRE_BATTLE\<rparr>
     \<and> primary_pro s' \<noteq> None \<and> primary_con s' \<noteq> None
     \<and> config s' = config s \<and> judge_agent s' = judge_agent s
     \<and> reported_confidences (event_queue s') = reported_confidences (event_queue s)"
  using assms
  by (simp add: initialize_debate_def Let_def random_choice_def emit_event_fields
      reported_confidences_append reported_confidences_other)

lemma run_opening_statements_result:
  assumes "primary_pro s = Some pp" and "primary_con s = Some pc"
  shows "\<exists>s'. run_opening_statements requirement s = Inr s'
     \<and> pro_confidence (state s') = pro_confidence (state s) + 5
     \<and> con_confidence (state s') = con_confidence (state s) + 5
     \<and> primary_pro s' = Some pp \<and> primary_con s' = Some pc
     \<and> config s' = config s \<and> judge_agent s' = judge_agent s
     \<and> reported_confidences (event_queue s') =
         reported_confidences (event_queue s) @
           [pro_confidence (state s) + 5, con_confidence (state s),
            pro_confidence (state s) + 5, con_confidence (state s) + 5]"
  using assms
  by (simp add: run_opening_statements_def Let_def emit_event_fields update_confidence_fields
      update_confidence_reports reported_confidences_append reported_confidences_other)

lemma run_evidence_duel_result:
  assumes "primary_pro s = Some pp" and "primary_con s = Some pc"
  shows "run_evidence_duel requirement rnd s =
     Inr (foldl (\<lambda>s i. evidence_round requirement pp pc (duel rnd i) s)
            (emit_event
               (event ''phase_change'' ''system''
                  [(''phase'', VStr ''evidence_duel''), (''round'', VInt 2),
                   (''message'', VStr ''ROUND 2: Evidence Duel!'')]
                  (Some ''lightning_flash'') (Some ''thunder'') 4)
               (s\<lparr>state := (state s)\<lparr>phase := EVIDENCE_DUEL, round_number := 2\<rparr>\<rparr>))
            [0..<evidence_rounds])"
  using assms by (simp add: run_evidence_duel_def Let_def emit_event_fields)

lemma run_cross_examination_result:
  assumes "primary_pro s = Some pp" and "primary_con s = Some pc"
  shows "\<exists>s'. run_cross_examination requirement rnd s = Inr s'
     \<and> pro_confidence (state s') = pro_confidence (state s)
     \<and> con_confidence (state s') = con_confidence (state s)
     \<and> primary_pro s' = Some pp \<and> primary_con s' = Some pc
     \<and> config s' = config s \<and> judge_agent s' = judge_agent s
     \<and> reported_confidences (event_queue s') = reported_confidences (event_queue s)"
  using assms
  by (simp add: run_cross_examination_def Let_def emit_event_fields
      reported_confidences_append reported_confidences_other)

lemma run_final_arguments_result:
  assumes "primary_pro s = Some pp" and "primary_con s = Some pc"
  shows "\<exists>s'. run_final_arguments requirement s = Inr s'
     \<and> pro_confidence (state s') = pro_confidence (state s)
     \<and> con_confidence (state s') = con_confidence (state s)
     \<and> primary_pro s' = Some pp \<and> primary_con s' = Some pc
     \<and> config s' = config s \<and> judge_agent s' = judge_agent s
     \<and> reported_confidences (event_queue s') = reported_confidences (event_queue s)"
  using assms
  by (simp add: run_final_arguments_def normal_final_arguments_def Let_def emit_event_fields
      knockout_finish_fields knockout_finish_reports final_argument_turn_fields
      final_argument_turn_reports reported_confidences_append reported_confidences_other)

lemma run_judgment_result:
  "pro_confidence (state (snd (run_judgment requirement s))) = pro_confidence (state s)"
  "con_confidence (state (snd (run_judgment requirement s))) = con_confidence (state s)"
  "phase (state (snd (run_judgment requirement s))) = COMPLETE"
  "reported_confidences (event_queue (snd (run_judgment requirement s))) =
     reported_confidences (event_queue s)"
  by (simp_all add: run_judgment_def Let_def emit_event_fields
      reported_confidences_append reported_confidences_other)

lemma upt_evidence_rounds: "[0..<evidence_rounds] = [0, 1, 2]"
  by (simp add: evidence_rounds_def upt_rec)

lemma compile_results_confidence:
  "final_confidence_pro (debate_summary (compile_results v s)) = pro_confidence (state s)"
  "final_confidence_con (debate_summary (compile_results v s)) = con_confidence (state s)"
  by (simp_all add: compile_results_def)

lemma DebateOrchestrator_init_fields:
  "state (DebateOrchestrator_init pro con judge cfg) = DebateState_default"
  "pro_agents (DebateOrchestrator_init pro con judge cfg) = pro"
  "con_agents (DebateOrchestrator_init pro con judge cfg) = con"
  "event_queue (DebateOrchestrator_init pro con judge cfg) = []"
  by (simp_all add: DebateOrchestrator_init_def)

text \<open>
  A run that starts with both confidences at \<open>c\<close> and no report so far: the shape of its
  result, with the duel written as the fold over its three sub-rounds.
\<close>

lemma analyze_requirement_shape:
  assumes ag: "pro_agents s \<noteq> []" "con_agents s \<noteq> []"
  shows "\<exists>res s' s2 pp pc.
      analyze_requirement requirement rnd s = Inr (res, s')
    \<and> final_confidence_pro (debate_summary res) = pro_confidence (state s')
    \<and> final_confidence_con (debate_summary res) = con_confidence (state s')
    \<and> pro_confidence (state s') = pro_confidence (state
          (foldl (\<lambda>s i. evidence_round requirement pp pc (duel rnd i) s) s2 [0..<evidence_rounds]))
    \<and> con_confidence (state s') = con_confidence (state
          (foldl (\<lambda>s i. evidence_round requirement pp pc (duel rnd i) s) s2 [0..<evidence_rounds]))
    \<and> reported_confidences (event_queue s') = reported_confidences (event_queue
          (foldl (\<lambda>s i. evidence_round requirement pp pc (duel rnd i) s) s2 [0..<evidence_rounds]))
    \<and> pro_confidence (state s2) = pro_confidence (state s) + 5
    \<and> con_confidence (state s2) = con_confidence (state s) + 5
    \<and> config s2 = config s
    \<and> reported_confidences (event_queue s2) =
         reported_confidences (event_queue s) @
           [pro_confidence (state s) + 5, con_confidence (state s),
            pro_confidence (state s) + 5, con_confidence (state s) + 5]"
proof -
  from initialize_debate_result [OF ag, of requirement rnd] obtain s1 pp pc where
    s1: "initialize_debate requirement rnd s = Inr s1"
    and st1: "state s1 = (state s)\<lparr>phase := PRE_BATTLE\<rparr>"
    and pr1: "primary_pro s1 = Some pp" "primary_con s1 = Some pc"
    and cf1: "config s1 = config s"
    and rp1: "reported_confidences (event_queue s1) = reported_confidences (event_queue s)"
    by auto
  from run_opening_statements_result [OF pr1, of requirement] obtain sa where
    sa: "run_opening_statements requirement s1 = Inr sa"
    and pa: "pro_confidence (state sa) = pro_confidence (state s1) + 5"
    and ca: "con_confidence (state sa) = con_confidence (state s1) + 5"
    and pra: "primary_pro sa = Some pp" "primary_con sa = Some pc"
    and cfa: "config sa = config s1"
    and rpa: "reported_confidences (event_queue sa) =
         reported_confidences (event_queue s1) @
           [pro_confidence (state s1) + 5, con_confidence (state s1),
            pro_confidence (state s1) + 5, con_confidence (state s1) + 5]"
    by auto
  define s2 where "s2 = emit_event
               (event ''phase_change'' ''system''
                  [(''phase'', VStr ''evidence_duel''), (''round'', VInt 2),
                   (''message'', VStr ''ROUND 2: Evidence Duel!'')]
                  (Some ''lightning_flash'') (Some ''thunder'') 4)
               (sa\<lparr>state := (state sa)\<lparr>phase := EVIDENCE_DUEL, round_number := 2\<rparr>\<rparr>)"
  define s3 where
    "s3 = foldl (\<lambda>s i. evidence_round requirement pp pc (duel rnd i) s) s2 [0..<evidence_rounds]"
  have d: "run_evidence_duel requirement rnd sa = Inr s3"
    unfolding s3_def s2_def by (rule run_evidence_duel_result [OF pra])
  have s2f: "pro_confidence (state s2) = pro_confidence (state s) + 5"
    "con_confidence (state s2) = con_confidence (state s) + 5"
    "config s2 = config s"
    "reported_confidences (event_queue s2) =
         reported_confidences (event_queue s) @
           [pro_confidence (state s) + 5, con_confidence (state s),
            pro_confidence (state s) + 5, con_confidence (state s) + 5]"
    by (simp_all add: s2_def emit_event_fields pa ca cfa cf1 rpa rp1 st1
        reported_confidences_append reported_confidences_other)
  have pr3: "primary_pro s3 = Some pp" "primary_con s3 = Some pc"
    by (simp_all add: s3_def duel_fold_fields s2_def emit_event_fields pra)
  from run_cross_examination_result [OF pr3, of requirement rnd] obtain s4 where
    s4: "run_cross_examination requirement rnd s3 = Inr s4"
    and p4: "pro_confidence (state s4) = pro_confidence (state s3)"
    and c4: "con_confidence (state s4) = con_confidence (state s3)"
    and pr4: "primary_pro s4 = Some pp" "primary_con s4 = Some pc"
    and rp4: "reported_confidences (event_queue s4) = reported_confidences (event_queue s3)"
    by auto
  from run_final_arguments_result [OF pr4, of requirement] obtain s5 where
    s5: "run_final_arguments requirement s4 = Inr s5"
    and p5: "pro_confidence (state s5) = pro_confidence (state s4)"
    and c5: "con_confidence (state s5) = con_confidence (state s4)"
    and rp5: "reported_confidences (event_queue s5) = reported_confidences (event_queue s4)"
    by auto
  obtain v s6 where j: "run_judgment requirement s5 = (v, s6)"
    by (cases "run_judgment requirement s5")
  from run_judgment_result [of requirement s5] j
  have p6: "pro_confidence (state s6) = pro_confidence (state s5)"
    and c6: "con_confidence (state s6) = con_confidence (state s5)"
    and rp6: "reported_confidences (event_queue s6) = reported_confidences (event_queue s5)"
    by simp_all
  have run: "analyze_requirement requirement rnd s = Inr (compile_results v s6, s6)"
    by (simp add: analyze_requirement_def s1 sa d s4 s5 j)
  show ?thesis
    apply (rule exI [of _ "compile_results v s6"])
    apply (rule exI [of _ s6])
    apply (rule exI [of _ s2])
    apply (rule exI [of _ pp])
    apply (rule exI [of _ pc])
    using run s2f
    by (simp add: compile_results_confidence p6 c6 rp6 p5 c5 rp5 p4 c4 rp4 s3_def)
qed















lemma fold_three_rounds:
  "foldl f s [0..<evidence_rounds] = f (f (f s 0) 1) 2"
  by (simp add: upt_evidence_rounds)

lemma agents_kept_steps:
  "pro_agents (update_confidence s) = pro_agents s"
  "con_agents (update_confidence s) = con_agents s"
  "pro_agents (present_evidence a ev team s) = pro_agents s"
  "con_agents (present_evidence a ev team s) = con_agents s"
  "pro_agents (attempt_objection r a ev team s) = pro_agents s"
  "con_agents (attempt_objection r a ev team s) = con_agents s"
  "pro_agents (check_dramatic_moment s) = pro_agents s"
  "con_agents (check_dramatic_moment s) = con_agents s"
  "pro_agents (knockout_finish team a s) = pro_agents s"
  "con_agents (knockout_finish team a s) = con_agents s"
  by (simp_all add: update_confidence_def present_evidence_def attempt_objection_def
      check_dramatic_moment_def knockout_finish_def Let_def emit_event_fields)

lemma agents_kept_round:
  "pro_agents (evidence_round requirement pp pc d s) = pro_agents s"
  "con_agents (evidence_round requirement pp pc d s) = con_agents s"
  by (simp_all add: evidence_round_def Let_def agents_kept_steps)

lemma agents_kept_fold:
  "pro_agents (foldl (\<lambda>s i. evidence_round requirement pp pc (draws i) s) s ixs) = pro_agents s"
  "con_agents (foldl (\<lambda>s i. evidence_round requirement pp pc (draws i) s) s ixs) = con_agents s"
  by (induction ixs arbitrary: s) (simp_all add: agents_kept_round)

lemma agents_kept_turn:
  "pro_agents (final_argument_turn requirement turn s) = pro_agents s"
  "con_agents (final_argument_turn requirement turn s) = con_agents s"
  by (cases turn, simp add: final_argument_turn_def Let_def emit_event_fields)+

lemma initialize_debate_agents:
  "initialize_debate requirement rnd s = Inr s' \<Longrightarrow>
   pro_agents s' = pro_agents s \<and> con_agents s' = con_agents s"
  by (auto simp: initialize_debate_def Let_def random_choice_def emit_event_fields
      split: if_splits)

lemma run_opening_statements_agents:
  "run_opening_statements requirement s = Inr s' \<Longrightarrow>
   pro_agents s' = pro_agents s \<and> con_agents s' = con_agents s"
  by (auto simp: run_opening_statements_def Let_def emit_event_fields agents_kept_steps
      split: option.splits)

lemma run_evidence_duel_agents:
  "run_evidence_duel requirement rnd s = Inr s' \<Longrightarrow>
   pro_agents s' = pro_agents s \<and> con_agents s' = con_agents s"
  by (auto simp: run_evidence_duel_def Let_def emit_event_fields agents_kept_fold
      split: option.splits)

lemma run_cross_examination_agents:
  "run_cross_examination requirement rnd s = Inr s' \<Longrightarrow>
   pro_agents s' = pro_agents s \<and> con_agents s' = con_agents s"
  by (auto simp: run_cross_examination_def Let_def emit_event_fields split: option.splits)

lemma run_final_arguments_agents:
  "run_final_arguments requirement s = Inr s' \<Longrightarrow>
   pro_agents s' = pro_agents s \<and> con_agents s' = con_agents s
   \<and> round_number (state s') = 4 \<and> phase (state s') = FINAL_ARGUMENTS"
  by (auto simp: run_final_arguments_def normal_final_arguments_def Let_def emit_event_fields
      agents_kept_steps agents_kept_turn knockout_finish_fields final_argument_turn_fields
      split: if_splits option.splits)

lemma run_judgment_agents:
  "pro_agents (snd (run_judgment requirement s)) = pro_agents s"
  "con_agents (snd (run_judgment requirement s)) = con_agents s"
  "round_number (state (snd (run_judgment requirement s))) = round_number (state s)"
  "jv_confidence (fst (run_judgment requirement s)) =
     \<bar>con_confidence (state s) - pro_confidence (state s)\<bar>"
  "config (snd (run_judgment requirement s)) = config s"
  by (simp_all add: run_judgment_def Let_def emit_event_fields get_judge_verdict_def)

text \<open>The last report of a sub-round carries the confidences the sub-round ends with.\<close>

lemma evidence_round_last_report:
  "\<exists>pre. reported_confidences (event_queue (evidence_round requirement pp pc d s)) =
     pre @ [pro_confidence (state (evidence_round requirement pp pc d s)),
            con_confidence (state (evidence_round requirement pp pc d s))]"
  by (simp add: evidence_round_def Let_def check_dramatic_moment_reports
      check_dramatic_moment_fields attempt_objection_reports present_evidence_reports
      attempt_objection_pro attempt_objection_con attempt_objection_fields
      present_evidence_fields)

lemma initialize_debate_primaries:
  assumes "pro_agents s \<noteq> []" and "con_agents s \<noteq> []"
  shows "\<exists>s' pp pc. initialize_debate requirement rnd s = Inr s'
     \<and> random_choice (pro_pick rnd) (pro_agents s) = Inr pp
     \<and> random_choice (con_pick rnd) (con_agents s) = Inr pc
     \<and> primary_pro s' = Some pp \<and> primary_con s' = Some pc
     \<and> state s' = (state s)\<lparr>phase := PRE_BATTLE\<rparr>
     \<and> config s' = config s"
  using assms
  by (simp add: initialize_debate_def Let_def random_choice_def emit_event_fields)


text \<open>What a run leaves behind, whatever the orchestrator it started on.\<close>

lemma analyze_requirement_leaves:
  assumes "analyze_requirement requirement rnd s = Inr (res, s')"
  shows "pro_agents s' = pro_agents s" and "con_agents s' = con_agents s"
    and "round_number (state s') = 4" and "phase (state s') = COMPLETE"
    and "jv_confidence (result_verdict res) =
           \<bar>con_confidence (state s') - pro_confidence (state s')\<bar>"
proof -
  from assms obtain s1 s2 s3 s4 s5 where
    s1: "initialize_debate requirement rnd s = Inr s1"
    and s2: "run_opening_statements requirement s1 = Inr s2"
    and s3: "run_evidence_duel requirement rnd s2 = Inr s3"
    and s4: "run_cross_examination requirement rnd s3 = Inr s4"
    and s5: "run_final_arguments requirement s4 = Inr s5"
    and s6: "s' = snd (run_judgment requirement s5)"
    and r: "res = compile_results (fst (run_judgment requirement s5)) s'"
    by (auto simp: analyze_requirement_def split: sum.splits prod.splits)
  show "pro_agents s' = pro_agents s" and "con_agents s' = con_agents s"
    using initialize_debate_agents [OF s1] run_opening_statements_agents [OF s2]
      run_evidence_duel_agents [OF s3] run_cross_examination_agents [OF s4]
      run_final_arguments_agents [OF s5]
    by (simp_all add: s6 run_judgment_agents)
  show "round_number (state s') = 4" and "phase (state s') = COMPLETE"
    using run_final_arguments_agents [OF s5]
    by (simp_all add: s6 run_judgment_agents run_judgment_result)
  show "jv_confidence (result_verdict res) =
           \<bar>con_confidence (state s') - pro_confidence (state s')\<bar>"
    by (simp add: r compile_results_def s6 run_judgment_agents run_judgment_result)
qed

text \<open>
  The confidences a run ends with, on any orchestrator with non-empty teams: the opening adds
  5, each sub-round adds \<open>(5 - tier) * 5\<close> and takes 10 for a raised objection; the last
  report carries the final values.
\<close>

lemma analyze_requirement_confidences:
  assumes ag: "pro_agents s \<noteq> []" "con_agents s \<noteq> []"
  shows "\<exists>res s'.
      analyze_requirement requirement rnd s = Inr (res, s')
    \<and> final_confidence_pro (debate_summary res) = pro_confidence (state s')
    \<and> final_confidence_con (debate_summary res) = con_confidence (state s')
    \<and> pro_confidence (state s') = pro_confidence (state s) + 5 +
          sum_list (map (\<lambda>i. real_of_int ((5 - pro_tier (duel rnd i)) * 5)
            - (if 3 \<le> pro_tier (duel rnd i)
                  \<and> pro_objection (duel rnd i) \<le> objection_threshold (config s)
               then 10 else 0)) [0, 1, 2])
    \<and> con_confidence (state s') = con_confidence (state s) + 5 +
          sum_list (map (\<lambda>i. real_of_int ((5 - con_tier (duel rnd i)) * 5)
            - (if 3 \<le> con_tier (duel rnd i)
                  \<and> con_objection (duel rnd i) \<le> objection_threshold (config s)
               then 10 else 0)) [0, 1, 2])
    \<and> (\<exists>pre. reported_confidences (event_queue s') =
          pre @ [pro_confidence (state s'), con_confidence (state s')])"
proof -
  from analyze_requirement_shape [OF ag, of requirement rnd] obtain res s' s2 pp pc where
    run: "analyze_requirement requirement rnd s = Inr (res, s')"
    and fp: "final_confidence_pro (debate_summary res) = pro_confidence (state s')"
    and fc: "final_confidence_con (debate_summary res) = con_confidence (state s')"
    and p: "pro_confidence (state s') = pro_confidence (state
          (foldl (\<lambda>s i. evidence_round requirement pp pc (duel rnd i) s) s2 [0..<evidence_rounds]))"
    and c: "con_confidence (state s') = con_confidence (state
          (foldl (\<lambda>s i. evidence_round requirement pp pc (duel rnd i) s) s2 [0..<evidence_rounds]))"
    and r: "reported_confidences (event_queue s') = reported_confidences (event_queue
          (foldl (\<lambda>s i. evidence_round requirement pp pc (duel rnd i) s) s2 [0..<evidence_rounds]))"
    and p2: "pro_confidence (state s2) = pro_confidence (state s) + 5"
    and c2: "con_confidence (state s2) = con_confidence (state s) + 5"
    and cf2: "config s2 = config s"
    by blast
  have pv: "pro_confidence (state s') = pro_confidence (state s) + 5 +
          sum_list (map (\<lambda>i. real_of_int ((5 - pro_tier (duel rnd i)) * 5)
            - (if 3 \<le> pro_tier (duel rnd i)
                  \<and> pro_objection (duel rnd i) \<le> objection_threshold (config s)
               then 10 else 0)) [0, 1, 2])"
    unfolding p fold_three_rounds
    by (simp add: evidence_round_pro_confidence evidence_round_fields cf2 p2)
  have cv: "con_confidence (state s') = con_confidence (state s) + 5 +
          sum_list (map (\<lambda>i. real_of_int ((5 - con_tier (duel rnd i)) * 5)
            - (if 3 \<le> con_tier (duel rnd i)
                  \<and> con_objection (duel rnd i) \<le> objection_threshold (config s)
               then 10 else 0)) [0, 1, 2])"
    unfolding c fold_three_rounds
    by (simp add: evidence_round_con_confidence evidence_round_fields cf2 c2)
  have lr: "\<exists>pre. reported_confidences (event_queue s') =
          pre @ [pro_confidence (state s'), con_confidence (state s')]"
    unfolding p c r fold_three_rounds by (rule evidence_round_last_report)
  from lr obtain pre where lq: "reported_confidences (event_queue s') =
          pre @ [pro_confidence (state s'), con_confidence (state s')]" ..
  from run fp fc pv cv lq show ?thesis by (intro exI conjI)
qed

text \<open>The run of a fresh orchestrator whose PRO draws are all of tier 1 and CON draws of tier 4.\<close>

lemma extreme_run_final_confidence:
  "\<exists>res s'. analyze_requirement ''add dark mode'' randomness_extreme orchestrator_fresh = Inr (res, s')
     \<and> final_confidence_pro (debate_summary res) = 115
     \<and> final_confidence_con (debate_summary res) = 40
     \<and> pro_confidence (state s') = 115 \<and> con_confidence (state s') = 40
     \<and> (\<exists>pre. reported_confidences (event_queue s') = pre @ [115, 40])"
proof -
  let ?s = "orchestrator_fresh"
  have ags: "pro_agents ?s \<noteq> []" "con_agents ?s \<noteq> []"
    by (simp_all add: orchestrator_fresh_def DebateOrchestrator_init_fields)
  have st: "pro_confidence (state ?s) = 50" "con_confidence (state ?s) = 50"
    "objection_threshold (config ?s) = 7 / 10"
    by (simp_all add: orchestrator_fresh_def DebateOrchestrator_init_def DebateState_default_def
        default_config_def)
  have d: "duel randomness_extreme i = draws_extreme" for i
    by (simp add: randomness_extreme_def)
  from analyze_requirement_confidences [OF ags, of "''add dark mode''" randomness_extreme]
  have "\<exists>res s'.
      analyze_requirement ''add dark mode'' randomness_extreme orchestrator_fresh = Inr (res, s')
    \<and> final_confidence_pro (debate_summary res) = pro_confidence (state s')
    \<and> final_confidence_con (debate_summary res) = con_confidence (state s')
    \<and> pro_confidence (state s') = 115
    \<and> con_confidence (state s') = 40
    \<and> (\<exists>pre. reported_confidences (event_queue s') =
          pre @ [pro_confidence (state s'), con_confidence (state s')])"
    unfolding d st by (simp add: draws_extreme_def)
  then obtain res s' pre where
    run: "analyze_requirement ''add dark mode'' randomness_extreme orchestrator_fresh = Inr (res, s')"
    and fp: "final_confidence_pro (debate_summary res) = pro_confidence (state s')"
    and fc: "final_confidence_con (debate_summary res) = con_confidence (state s')"
    and pv: "pro_confidence (state s') = 115"
    and cv: "con_confidence (state s') = 40"
    and lq: "reported_confidences (event_queue s') =
          pre @ [pro_confidence (state s'), con_confidence (state s')]"
    by (elim exE conjE)
  from fp fc lq have fp': "final_confidence_pro (debate_summary res) = 115"
    and fc': "final_confidence_con (debate_summary res) = 40"
    and lq': "reported_confidences (event_queue s') = pre @ [115, 40]"
    by (simp_all add: pv cv)
  from run fp' fc' pv cv lq' show ?thesis by (intro exI conjI)
qed













lemma count_objections_append:
  "length (filter (\<lambda>e. event_type e = ''objection_raised'') (xs @ ys)) =
     length (filter (\<lambda>e. event_type e = ''objection_raised'') xs) +
     length (filter (\<lambda>e. event_type e = ''objection_raised'') ys)"
  by simp

lemma attempt_objection_count:
  "length (filter (\<lambda>e. event_type e = ''objection_raised'')
       (event_queue (attempt_objection r a ev team s))) =
     length (filter (\<lambda>e. event_type e = ''objection_raised'') (event_queue s)) +
       (if r \<le> objection_threshold (config s) then 1 else 0)"
  by (simp add: attempt_objection_def Let_def update_confidence_def emit_event_fields event_def)

lemma default_firing_draws:
  "{r. 0 \<le> r \<and> r < 1 \<and> \<not> r > objection_threshold default_config} = {0..7/10}"
  by (auto simp: default_config_def)

text \<open>
  Claim C3, amended. An objection attempt with the draw \<open>r\<close> raises the objection exactly
  when \<open>r\<close> is at most the configured \<open>objection_threshold\<close>, whose default is 0.7, so that
  under the default configuration the draws in \<open>[0,1)\<close> that raise it are those of
  \<open>[0, 0.7]\<close> (probability 0.7 for a uniform draw). A raised objection subtracts exactly 10
  from the presenting side's confidence and leaves the other side's unchanged. In a sub-round
  of the evidence duel the attempt is made exactly when the presented tier is at least 3: each
  side's confidence changes by \<open>(5 - tier) * 5\<close>, less 10 if its tier is at least 3 and its
  draw is at most the threshold.
\<close>

theorem objection_rule:
  "pro_confidence (state (attempt_objection r a ev ''CON'' self)) =
     pro_confidence (state self) - (if r \<le> objection_threshold (config self) then 10 else 0)
   \<and> con_confidence (state (attempt_objection r a ev ''CON'' self)) = con_confidence (state self)
   \<and> con_confidence (state (attempt_objection r a ev ''PRO'' self)) =
     con_confidence (state self) - (if r \<le> objection_threshold (config self) then 10 else 0)
   \<and> pro_confidence (state (attempt_objection r a ev ''PRO'' self)) = pro_confidence (state self)
   \<and> length (filter (\<lambda>e. event_type e = ''objection_raised'')
         (event_queue (attempt_objection r a ev team self))) =
       length (filter (\<lambda>e. event_type e = ''objection_raised'') (event_queue self)) +
         (if r \<le> objection_threshold (config self) then 1 else 0)
   \<and> pro_confidence (state (evidence_round requirement pp pc d self)) =
       pro_confidence (state self) + real_of_int ((5 - pro_tier d) * 5)
         - (if 3 \<le> pro_tier d \<and> pro_objection d \<le> objection_threshold (config self)
            then 10 else 0)
   \<and> con_confidence (state (evidence_round requirement pp pc d self)) =
       con_confidence (state self) + real_of_int ((5 - con_tier d) * 5)
         - (if 3 \<le> con_tier d \<and> con_objection d \<le> objection_threshold (config self)
            then 10 else 0)
   \<and> objection_threshold (config (DebateOrchestrator_init pro con judge None)) = 7 / 10
   \<and> {r. 0 \<le> r \<and> r < 1 \<and> \<not> r > objection_threshold default_config} = {0..7/10}"
  by (simp only: attempt_objection_con attempt_objection_pro attempt_objection_count
      evidence_round_pro_confidence evidence_round_con_confidence default_firing_draws simp_thms)
     (simp add: DebateOrchestrator_init_def default_config_def)

theorem objection_rule_witness:
  "pro_confidence (state (evidence_round ''add dark mode'' agent_pro agent_con draws_silver
      orchestrator_fresh)) = 50
   \<and> con_confidence (state (evidence_round ''add dark mode'' agent_pro agent_con draws_silver
      orchestrator_fresh)) = 65
   \<and> pro_confidence (state (attempt_objection (71 / 100) agent_con evidence_silver ''CON''
      orchestrator_fresh)) = 50"
  using objection_rule [where r = "71 / 100" and a = agent_con and ev = evidence_silver
      and self = orchestrator_fresh and requirement = "''add dark mode''" and pp = agent_pro
      and pc = agent_con and d = draws_silver and team = "''CON''" and pro = "[agent_pro]"
      and con = "[agent_con]" and judge = agent_judge]
  by (simp add: orchestrator_fresh_def DebateOrchestrator_init_def DebateState_default_def
      default_config_def draws_silver_def)

text \<open>
  Claim C3, as stated, fails on the default: the configured threshold is 0.7, and the
  objection is raised (10 is taken from the presenter's 50) at the draws 0.3, 0.5 and 0.7; it
  is not raised at 0.71.
\<close>

theorem objection_default_counterexample:
  "objection_threshold (config orchestrator_fresh) = 7 / 10
   \<and> pro_confidence (state orchestrator_fresh) = 50
   \<and> pro_confidence (state (attempt_objection (3 / 10) agent_con evidence_silver ''CON''
        orchestrator_fresh)) = 40
   \<and> pro_confidence (state (attempt_objection (1 / 2) agent_con evidence_silver ''CON''
        orchestrator_fresh)) = 40
   \<and> pro_confidence (state (attempt_objection (7 / 10) agent_con evidence_silver ''CON''
        orchestrator_fresh)) = 40
   \<and> pro_confidence (state (attempt_objection (71 / 100) agent_con evidence_silver ''CON''
        orchestrator_fresh)) = 50"
  by (simp add: attempt_objection_con orchestrator_fresh_def DebateOrchestrator_init_def
      DebateState_default_def default_config_def)

text \<open>
  Claim C10, amended. A freshly constructed orchestrator, whatever its teams, judge and
  configuration, has the state phase = PRE_BATTLE, round_number = 0, pro_confidence =
  con_confidence = 50, pro_evidence_score = con_evidence_score = 0 and empty transcript,
  evidence, objection and dramatic-moment lists, with an empty event queue, and the first
  step of a run on it, \<open>_initialize_debate\<close>, leaves this state as it is (or raises on an
  empty team); the default dramatic-moment threshold is 20. A run does not reset the state:
  on any orchestrator \<open>_initialize_debate\<close> sets the phase to PRE_BATTLE and changes nothing
  else of the state, so only the first run on an orchestrator begins from the fixed state.
\<close>

theorem initial_debate_state:
  "state (DebateOrchestrator_init pro con judge cfg) =
     \<lparr>phase = PRE_BATTLE, round_number = 0, pro_confidence = 50, con_confidence = 50,
      pro_evidence_score = 0, con_evidence_score = 0, current_speaker = None,
      transcript = [], evidence_presented = [], objections = [], dramatic_moments = []\<rparr>
   \<and> event_queue (DebateOrchestrator_init pro con judge cfg) = []
   \<and> map_sum id state
        (initialize_debate requirement rnd (DebateOrchestrator_init pro con judge cfg)) =
       (if pro = [] \<or> con = [] then Inl IndexError
        else Inr \<lparr>phase = PRE_BATTLE, round_number = 0, pro_confidence = 50, con_confidence = 50,
          pro_evidence_score = 0, con_evidence_score = 0, current_speaker = None,
          transcript = [], evidence_presented = [], objections = [], dramatic_moments = []\<rparr>)
   \<and> dramatic_moment_threshold (config (DebateOrchestrator_init pro con judge None)) = 20
   \<and> (\<forall>s. map_sum id state (initialize_debate requirement rnd s) =
         (if pro_agents s = [] \<or> con_agents s = [] then Inl IndexError
          else Inr ((state s)\<lparr>phase := PRE_BATTLE\<rparr>)))"
  by (simp add: DebateOrchestrator_init_def DebateState_default_def default_config_def
      initialize_debate_def Let_def random_choice_def emit_event_fields)

text \<open>
  Claim C10, as stated, fails for a run on an orchestrator that has run before. After one
  run of a fresh orchestrator in which PRO draws tier 1 and CON tier 4 three times, a second
  call of \<open>analyze_requirement\<close> on the same object begins, after its \<open>_initialize_debate\<close>,
  in round 4 with the confidences 115 and 40.
\<close>

theorem second_run_counterexample:
  "(case analyze_requirement ''add dark mode'' randomness_extreme orchestrator_fresh of
      Inl e \<Rightarrow> Inl e
    | Inr (res, s') \<Rightarrow>
        map_sum id
          (\<lambda>s. (phase (state s), round_number (state s),
                 pro_confidence (state s), con_confidence (state s)))
          (initialize_debate ''add dark mode'' randomness_extreme s'))
   = Inr (PRE_BATTLE, 4, 115, 40)"
proof -
  from extreme_run_final_confidence obtain res s' where
    run: "analyze_requirement ''add dark mode'' randomness_extreme orchestrator_fresh = Inr (res, s')"
    and pv: "pro_confidence (state s') = 115"
    and cv: "con_confidence (state s') = 40"
    by auto
  have ag: "pro_agents s' \<noteq> []" "con_agents s' \<noteq> []"
    by (simp_all add: analyze_requirement_leaves [OF run] orchestrator_fresh_def
        DebateOrchestrator_init_fields)
  have rn: "round_number (state s') = 4"
    by (rule analyze_requirement_leaves [OF run])
  from initialize_debate_primaries [OF ag, of "''add dark mode''" randomness_extreme]
  obtain s1 where
    s1: "initialize_debate ''add dark mode'' randomness_extreme s' = Inr s1"
    and st: "state s1 = (state s')\<lparr>phase := PRE_BATTLE\<rparr>"
    by auto
  show ?thesis
    by (simp add: run s1 st pv cv rn)
qed

end
